theory Spec2Isabelle
  imports Complex_Main "HOL-Library.AList" "HOL-Library.Multiset"
begin

text \<open>
  A model of the retrieval pipeline of server/utils/query.ts: query expansion
  (\<^verbatim>\<open>rewriteToQueries\<close>), full-text search (\<^verbatim>\<open>searchDocumentChunks\<close>), the vector search
  written inline in \<^verbatim>\<open>processUserQuery\<close>, reciprocal rank fusion
  (\<^verbatim>\<open>performReciprocalRankFusion\<close>), context assembly (\<^verbatim>\<open>getRelevantDocuments\<close>,
  \<^verbatim>\<open>formatContext\<close>), the orchestration (\<^verbatim>\<open>processUserQuery\<close>) and the request handler.
  The language model, the indexes and the chunk table are parameters: a record of functions that
  give, for each call, the value returned or the error thrown. An \<^verbatim>\<open>async\<close> function is a
  function that returns its result together with the external calls it made; the event
  stream and the log of external calls are passed through the orchestration explicitly.
  Where the other copy of the module (src/unnamed/part_000) differs in a function that a
  property below is about, that copy stands beside it under the name suffixed \<open>part_000\<close>.
\<close>

section \<open>JavaScript values used by server/utils/query.ts\<close>

subsection \<open>Strings\<close>

text \<open>
  A JavaScript string is a sequence of UTF-16 code units. The model uses \<^typ>\<open>string\<close>, whose
  characters stand for the code units below 256. Among those, the white space of
  \<^verbatim>\<open>String.prototype.trim\<close> and of the regular-expression class \<^verbatim>\<open>\s\<close> is TAB, LF, VT, FF, CR,
  SPACE and NO-BREAK SPACE, and the class \<^verbatim>\<open>\w\<close> is \<^verbatim>\<open>[A-Za-z0-9_]\<close>.
\<close>

definition js_whitespace :: "char \<Rightarrow> bool" where
  "js_whitespace c = (of_char c \<in> set [9, 10, 11, 12, 13, 32, 160 :: nat])"

definition word_char :: "char \<Rightarrow> bool" where
  "word_char c = (let n = of_char c :: nat
     in (48 \<le> n \<and> n \<le> 57) \<or> (65 \<le> n \<and> n \<le> 90) \<or> n = 95 \<or> (97 \<le> n \<and> n \<le> 122))"

definition trim :: "string \<Rightarrow> string" where
  "trim s = rev (dropWhile js_whitespace (rev (dropWhile js_whitespace s)))"

text \<open>\<^verbatim>\<open>s.split('\n')\<close>: the pieces between line feeds; the empty string gives one empty piece.\<close>

fun split_on :: "char \<Rightarrow> string \<Rightarrow> string list" where
  "split_on d [] = [[]]"
| "split_on d (c # cs) =
     (if c = d then [] # split_on d cs
      else (case split_on d cs of [] \<Rightarrow> [[c]] | l # ls \<Rightarrow> (c # l) # ls))"

text \<open>\<^verbatim>\<open>xs.join(sep)\<close>.\<close>

fun join :: "string \<Rightarrow> string list \<Rightarrow> string" where
  "join sep [] = []"
| "join sep [x] = x"
| "join sep (x # y # ys) = x @ sep @ join sep (y # ys)"

text \<open>The decimal rendering of a non-negative integer, as a template literal produces it.\<close>

fun number_to_string :: "nat \<Rightarrow> string" where
  "number_to_string n =
     (if n < 10 then [char_of (48 + n)]
      else number_to_string (n div 10) @ [char_of (48 + n mod 10)])"

declare number_to_string.simps [simp del]

subsection \<open>Numbers\<close>

text \<open>
  A JavaScript number is an IEEE 754 binary64 value. The finite ones are rationals, so the
  model computes in \<^typ>\<open>rat\<close> and rounds the exact result of each operation to the nearest
  value with a 53-bit significand, ties to even, as \<^verbatim>\<open>+\<close> and \<^verbatim>\<open>/\<close> do. The exponent range
  is not modelled: the numbers of this program are reciprocals of list positions and sums
  of them, far from overflow and from the subnormal range, and no divisor is zero; the ranks that
  the full-text index reports are taken to be finite numbers. Integers such as
  \<^verbatim>\<open>RANKING_CONSTANT + index + 1\<close> are exact.
\<close>

text \<open>The number of binary digits of a positive integer.\<close>

function bit_length :: "int \<Rightarrow> nat" where
  "bit_length k = (if k \<le> 0 then 0 else Suc (bit_length (k div 2)))"
  by pat_completeness auto
termination
  by (relation "measure nat") auto

declare bit_length.simps [simp del]

definition pow2 :: "int \<Rightarrow> rat" where
  "pow2 e = (if 0 \<le> e then 2 ^ nat e else 1 / 2 ^ nat (- e))"

text \<open>The exponent \<open>e\<close> with \<open>2 ^ e \<le> x < 2 ^ (e + 1)\<close>, for positive \<open>x\<close>.\<close>

definition binade :: "rat \<Rightarrow> int" where
  "binade x = (let (p, q) = quotient_of x;
                   d = int (bit_length p) - int (bit_length q)
               in if pow2 d \<le> x then d else d - 1)"

definition round_half_even :: "rat \<Rightarrow> int" where
  "round_half_even x = (let f = \<lfloor>x\<rfloor>; r = x - of_int f
     in if r < 1 / 2 then f else if 1 / 2 < r then f + 1 else if even f then f else f + 1)"

definition round_double :: "rat \<Rightarrow> rat" where
  "round_double x = (if x = 0 then 0
     else let a = \<bar>x\<bar>; u = pow2 (binade a - 52); m = of_int (round_half_even (a / u)) * u
          in if x < 0 then - m else m)"

text \<open>Adding zero is exact; every other sum is rounded.\<close>

definition js_add :: "rat \<Rightarrow> rat \<Rightarrow> rat" where
  "js_add a b = (if a = 0 then b else if b = 0 then a else round_double (a + b))"

definition js_div :: "rat \<Rightarrow> rat \<Rightarrow> rat" where
  "js_div a b = round_double (a / b)"

text \<open>\<^verbatim>\<open>v || 0\<close> for a number or \<^verbatim>\<open>undefined\<close>: zero itself is falsy.\<close>

definition or_zero :: "rat option \<Rightarrow> rat" where
  "or_zero v = (case v of None \<Rightarrow> 0 | Some x \<Rightarrow> if x = 0 then 0 else x)"

text \<open>\<^verbatim>\<open>v ?? 0\<close>.\<close>

definition nullish_zero :: "rat option \<Rightarrow> rat" where
  "nullish_zero v = (case v of None \<Rightarrow> 0 | Some x \<Rightarrow> x)"

subsection \<open>Objects used as dictionaries\<close>

text \<open>
  \<^verbatim>\<open>const scores: Record<string, number> = {}\<close> is a plain object: its own properties are
  created by assignment, and it inherits the properties of \<^verbatim>\<open>Object.prototype\<close>. Reading
  \<^verbatim>\<open>scores[id]\<close> for an \<^verbatim>\<open>id\<close> without own property gives \<^verbatim>\<open>undefined\<close>, unless \<^verbatim>\<open>id\<close> names an
  inherited property: then it gives \<^verbatim>\<open>Object.prototype\<close> itself for \<^verbatim>\<open>__proto__\<close> and a
  method for the other names, and both are truthy. An object or a function plus a number is
  a string (the text of the object or function followed by the number), and a string plus a
  number appends the number. Assigning a string to \<^verbatim>\<open>__proto__\<close> is ignored by its setter;
  assigning to any other name creates or overwrites an own property.

  So the value of an own property of \<^verbatim>\<open>scores\<close> is a number, or a string that stands under
  the name of an inherited method: \<open>Text ns\<close> is the text of that method followed by the
  numbers \<open>ns\<close> in the order in which they were appended.

  The model of the object is the list of its own properties in creation order; assigning to
  an existing key keeps the key's place (\<^const>\<open>AList.update\<close>). \<^verbatim>\<open>Object.entries\<close> lists the
  keys that are array indices (canonical decimal numerals below \<open>2^32 - 1\<close>) first, in
  ascending numeric order, and then the other keys in creation order.
\<close>

definition inherited_methods :: "string list" where
  "inherited_methods =
     [''constructor'', ''__defineGetter__'', ''__defineSetter__'', ''hasOwnProperty'',
      ''__lookupGetter__'', ''__lookupSetter__'', ''isPrototypeOf'', ''propertyIsEnumerable'',
      ''toString'', ''valueOf'', ''toLocaleString'']"

definition inherited_property :: "string \<Rightarrow> bool" where
  "inherited_property k = (k = ''__proto__'' \<or> k \<in> set inherited_methods)"

datatype score_value = Number rat | Text "rat list"

definition is_number :: "score_value \<Rightarrow> bool" where
  "is_number v = (case v of Number x \<Rightarrow> True | Text ns \<Rightarrow> False)"

definition number_of :: "score_value \<Rightarrow> rat" where
  "number_of v = (case v of Number x \<Rightarrow> x | Text ns \<Rightarrow> 0)"

type_synonym scores = "(string \<times> score_value) list"

definition digit_char :: "char \<Rightarrow> bool" where
  "digit_char c = (48 \<le> (of_char c :: nat) \<and> (of_char c :: nat) \<le> 57)"

definition numeral_value :: "string \<Rightarrow> int" where
  "numeral_value k = foldl (\<lambda>n c. 10 * n + (of_char c - 48)) 0 k"

definition is_array_index :: "string \<Rightarrow> bool" where
  "is_array_index k = (k \<noteq> [] \<and> list_all digit_char k
     \<and> (hd k \<noteq> CHR ''0'' \<or> k = ''0'') \<and> numeral_value k < 4294967295)"

definition Object_entries :: "scores \<Rightarrow> (string \<times> score_value) list" where
  "Object_entries s =
     sort_key (\<lambda>p. numeral_value (fst p)) (filter (\<lambda>p. is_array_index (fst p)) s)
     @ filter (\<lambda>p. \<not> is_array_index (fst p)) s"

subsection \<open>Errors\<close>

text \<open>
  A thrown value is an \<^verbatim>\<open>Error\<close> with its message or something else; the handlers report
  \<^verbatim>\<open>error instanceof Error ? error.message : 'Unknown error'\<close>.
\<close>

datatype js_error = Error string | NonError

definition error_message :: "js_error \<Rightarrow> string" where
  "error_message e = (case e of Error m \<Rightarrow> m | NonError \<Rightarrow> ''Unknown error'')"

section \<open>Data model\<close>

text \<open>
  The interfaces of query.ts. A field that the code guards with \<^verbatim>\<open>?.\<close>, \<^verbatim>\<open>??\<close> or a
  truthiness test may be absent at run time and is an option (\<open>None\<close> is \<^verbatim>\<open>undefined\<close>);
  a \<^verbatim>\<open>null\<close> list element under \<^verbatim>\<open>x?.id\<close> behaves as an element without \<^verbatim>\<open>id\<close>. The optional
  fields that the code never reads (\<^verbatim>\<open>values\<close>, \<^verbatim>\<open>metadata\<close>, \<^verbatim>\<open>namespace\<close>, \<^verbatim>\<open>embeddingId\<close>)
  are left out.
\<close>

record VectorizeMatch =
  match_id :: "string option"
  match_score :: rat

record VectorizeMatches =
  matches :: "VectorizeMatch list option"

record DocumentChunk =
  chunk_id :: "string option"
  chunk_text :: string
  documentId :: string
  chunk_sessionId :: string

record DocumentChunkResult = DocumentChunk +
  rank :: "rat option"

text \<open>
  \<^verbatim>\<open>RankedResult\<close> declares \<^verbatim>\<open>score: number\<close>; at run time the score is whatever \<^verbatim>\<open>scores\<close>
  holds under the id.
\<close>

record RankedResult =
  result_id :: string
  score :: score_value

section \<open>Rank fusion\<close>

definition RANKING_CONSTANT :: nat where
  "RANKING_CONSTANT = 60"

text \<open>
  What \<^verbatim>\<open>scores[id] = (scores[id] || 0) + c\<close> stores under the key \<open>k\<close>, given the own
  property of \<open>k\<close> (if any) and the number \<open>c\<close>; \<open>None\<close> when nothing is stored.
\<close>

definition assigned :: "string \<Rightarrow> score_value option \<Rightarrow> rat \<Rightarrow> score_value option" where
  "assigned k own c =
     (case own of
        Some (Number v) \<Rightarrow> Some (Number (js_add (or_zero (Some v)) c))
      | Some (Text ns) \<Rightarrow> Some (Text (ns @ [c]))
      | None \<Rightarrow>
          if k = ''__proto__'' then None
          else if k \<in> set inherited_methods then Some (Text [c])
          else Some (Number (js_add (or_zero None) c)))"

text \<open>
  The body of both \<^verbatim>\<open>forEach\<close> callbacks: a hit without a truthy id is skipped, otherwise
  \<^verbatim>\<open>scores[id] = (scores[id] || 0) + 1 / (RANKING_CONSTANT + index + 1)\<close>.
\<close>

definition add_hit :: "scores \<Rightarrow> nat \<Rightarrow> string option \<Rightarrow> scores" where
  "add_hit scores index i =
     (case i of
        None \<Rightarrow> scores
      | Some k \<Rightarrow>
          if k = [] then scores
          else (case assigned k (map_of scores k)
                       (js_div 1 (of_nat (RANKING_CONSTANT + index + 1))) of
                  None \<Rightarrow> scores
                | Some v \<Rightarrow> AList.update k v scores))"

text \<open>\<^verbatim>\<open>hits.forEach((hit, index) => ...)\<close> over the ids of the hits.\<close>

definition add_hits :: "scores \<Rightarrow> string option list \<Rightarrow> scores" where
  "add_hits scores ids = foldl (\<lambda>s p. add_hit s (fst p) (snd p)) scores (enumerate 0 ids)"

definition add_matches :: "scores \<Rightarrow> VectorizeMatches \<Rightarrow> scores" where
  "add_matches scores result =
     (case matches result of
        None \<Rightarrow> scores
      | Some ms \<Rightarrow> add_hits scores (map match_id ms))"

definition fused_scores :: "DocumentChunkResult list \<Rightarrow> VectorizeMatches list \<Rightarrow> scores" where
  "fused_scores fullTextResults vectorResults =
     foldl add_matches (add_hits [] (map chunk_id fullTextResults)) vectorResults"

text \<open>
  The comparator \<^verbatim>\<open>(a, b) => b.score - a.score\<close> is the difference of two numbers, and
  \<^verbatim>\<open>NaN\<close> when either score is a string, which \<^verbatim>\<open>sort\<close> takes as zero. \<open>keeps_place a b\<close>
  says that the comparator is not positive, so that \<open>a\<close> may stay before \<open>b\<close>.
\<close>

definition keeps_place :: "RankedResult \<Rightarrow> RankedResult \<Rightarrow> bool" where
  "keeps_place a b =
     (case score a of
        Number x \<Rightarrow> (case score b of Number y \<Rightarrow> y \<le> x | Text ns \<Rightarrow> True)
      | Text ns \<Rightarrow> True)"

text \<open>
  \<^verbatim>\<open>Array.prototype.sort\<close> is stable: among numbers it orders by descending score and keeps
  the order of \<^verbatim>\<open>Object.entries\<close> among equal scores, which is what the insertion sort below
  computes. When some score is a string the comparator is inconsistent and JavaScript
  leaves the order to the implementation; the insertion sort then gives one possible order,
  and no statement below depends on it.
\<close>

fun insert_result :: "RankedResult \<Rightarrow> RankedResult list \<Rightarrow> RankedResult list" where
  "insert_result a [] = [a]"
| "insert_result a (b # bs) = (if keeps_place a b then a # b # bs else b # insert_result a bs)"

definition array_sort :: "RankedResult list \<Rightarrow> RankedResult list" where
  "array_sort rs = foldr insert_result rs []"

definition performReciprocalRankFusion ::
  "DocumentChunkResult list \<Rightarrow> VectorizeMatches list \<Rightarrow> RankedResult list" where
  "performReciprocalRankFusion fullTextResults vectorResults =
     array_sort
       (map (\<lambda>p. \<lparr>result_id = fst p, score = snd p\<rparr>)
          (Object_entries (fused_scores fullTextResults vectorResults)))"

text \<open>
  The score mapping read off the code: the contributions \<open>1 / (60 + i + 1)\<close> that an id
  receives, one for each zero-based position \<open>i\<close> at which it occurs, first from the lexical
  list and then from each vector list in turn, and their sum taken in that order.
\<close>

definition rrf_terms :: "string \<Rightarrow> nat \<Rightarrow> string option list \<Rightarrow> rat list" where
  "rrf_terms k n ids =
     map (\<lambda>p. js_div 1 (of_nat (RANKING_CONSTANT + fst p + 1)))
       (filter (\<lambda>p. snd p = Some k) (enumerate n ids))"

definition match_terms :: "string \<Rightarrow> VectorizeMatches \<Rightarrow> rat list" where
  "match_terms k v =
     (case matches v of None \<Rightarrow> [] | Some ms \<Rightarrow> rrf_terms k 0 (map match_id ms))"

definition contributions ::
  "string \<Rightarrow> DocumentChunkResult list \<Rightarrow> VectorizeMatches list \<Rightarrow> rat list" where
  "contributions k fullTextResults vectorResults =
     (if k = [] then []
      else rrf_terms k 0 (map chunk_id fullTextResults)
           @ concat (map (match_terms k) vectorResults))"

definition js_sum :: "rat list \<Rightarrow> rat" where
  "js_sum ts = foldl js_add 0 ts"

definition result_pairs :: "RankedResult list \<Rightarrow> (string \<times> score_value) list" where
  "result_pairs rs = map (\<lambda>r. (result_id r, score r)) rs"

text \<open>All scores are numbers, in descending order.\<close>

definition descending :: "RankedResult list \<Rightarrow> bool" where
  "descending rs =
     (list_all (\<lambda>r. is_number (score r)) rs
      \<and> sorted_wrt (\<lambda>a b. number_of (score b) \<le> number_of (score a)) rs)"

text \<open>No hit carries the name of an inherited property as its id.\<close>

definition plain_id :: "string option \<Rightarrow> bool" where
  "plain_id i = (case i of None \<Rightarrow> True | Some k \<Rightarrow> \<not> inherited_property k)"

definition plain_matches :: "VectorizeMatches \<Rightarrow> bool" where
  "plain_matches v =
     (case matches v of None \<Rightarrow> True | Some ms \<Rightarrow> list_all (\<lambda>m. plain_id (match_id m)) ms)"

definition plain_hits :: "DocumentChunkResult list \<Rightarrow> VectorizeMatches list \<Rightarrow> bool" where
  "plain_hits fullTextResults vectorResults =
     (list_all (\<lambda>r. plain_id (chunk_id r)) fullTextResults
      \<and> list_all plain_matches vectorResults)"

section \<open>Collaborators, events and external calls\<close>

datatype role = System | User | Assistant | Tool

record RoleScopedChatInput =
  role :: role
  content :: "string option"

record QueryProcessingResult =
  messages :: "RoleScopedChatInput list"
  relevantDocs :: "DocumentChunk list"
  queries :: "string list"

text \<open>The body of the request: \<^verbatim>\<open>{ messages, sessionId }\<close>, either of which may be missing.\<close>

record request =
  sessionId :: "string option"
  request_messages :: "RoleScopedChatInput list option"

text \<open>
  The objects given to \<^verbatim>\<open>streamResponse\<close>: \<^verbatim>\<open>{message}\<close>, \<^verbatim>\<open>{message, queries}\<close>,
  \<^verbatim>\<open>{message, found}\<close>, \<^verbatim>\<open>{error}\<close> and \<^verbatim>\<open>{chunk}\<close>.
\<close>

datatype event =
    Message string
  | MessageQueries string "string list"
  | MessageFound string nat
  | ErrorEvent string
  | ChunkEvent string

definition is_error :: "event \<Rightarrow> bool" where
  "is_error ev = (case ev of ErrorEvent m \<Rightarrow> True | _ \<Rightarrow> False)"

definition is_chunk :: "event \<Rightarrow> bool" where
  "is_chunk ev = (case ev of ChunkEvent c \<Rightarrow> True | _ \<Rightarrow> False)"

text \<open>
  The calls to the collaborators: the model (\<^verbatim>\<open>useAI\<close>), the full-text index and the chunk
  table through the drizzle client (\<^verbatim>\<open>useDrizzle\<close>), and the vector index (\<^verbatim>\<open>useVectorize\<close>).
  The prompt and the SQL text are fixed templates around one string, which stands for them.
\<close>

datatype external_call =
    AiRunPrompt string
  | DbRunMatch string
  | GenerateEmbeddings "string list"
  | VectorizeQuery "rat list option" string
  | DbSelectChunks "string list"
  | AiRunStream "RoleScopedChatInput list"

text \<open>
  What the collaborators answer: a thrown error (\<open>Inl\<close>) or a value. The answer of the
  model to the rewriting prompt is its \<^verbatim>\<open>response\<close> field, the answer of the index is its
  \<^verbatim>\<open>results\<close> field, and either may be absent. The streamed answer is the finite sequence of
  decoded chunks that \<^verbatim>\<open>reader.read()\<close> delivers, ended by \<^verbatim>\<open>done\<close> (\<open>None\<close>) or by a
  failing read.
\<close>

record collaborators =
  ai_run_prompt :: "string \<Rightarrow> js_error + string option"
  db_run_match :: "string \<Rightarrow> js_error + DocumentChunkResult list option"
  ai_generateEmbeddings :: "string list \<Rightarrow> js_error + rat list list"
  vectorize_query :: "rat list option \<Rightarrow> string \<Rightarrow> js_error + VectorizeMatches"
  db_select_chunks :: "string list \<Rightarrow> js_error + DocumentChunk list"
  ai_run_stream :: "RoleScopedChatInput list \<Rightarrow> js_error + string list \<times> js_error option"

text \<open>The event stream of one request and the external calls made so far.\<close>

record world =
  events :: "event list"
  is_closed :: bool
  calls :: "external_call list"

definition streamResponse :: "event \<Rightarrow> world \<Rightarrow> world" where
  "streamResponse ev w = w\<lparr>events := events w @ [ev]\<rparr>"

definition made :: "external_call list \<Rightarrow> world \<Rightarrow> world" where
  "made cs w = w\<lparr>calls := calls w @ cs\<rparr>"

definition close :: "world \<Rightarrow> world" where
  "close w = w\<lparr>is_closed := True\<rparr>"

text \<open>
  \<^verbatim>\<open>Promise.all\<close>: every member has been started; the result is the list of values, or a
  rejection when some member rejects. JavaScript reports the rejection that happens first in
  time; the model reports the first one in list order.
\<close>

fun promise_all :: "(js_error + 'a) list \<Rightarrow> js_error + 'a list" where
  "promise_all [] = Inr []"
| "promise_all (r # rs) =
     (case r of
        Inl e \<Rightarrow> Inl e
      | Inr x \<Rightarrow> (case promise_all rs of Inl e \<Rightarrow> Inl e | Inr xs \<Rightarrow> Inr (x # xs)))"

section \<open>The pipeline of query.ts\<close>

definition SYSTEM_MESSAGE :: string where
  "SYSTEM_MESSAGE =
     ''You are a helpful assistant that answers questions based on the provided context. ''
     @ [CHR 0x0A]
     @ ''When giving a response, always cite your sources using the format [1], [2], etc. corresponding to the document chunks provided.''"

subsection \<open>Query expansion\<close>

text \<open>
  The \<^verbatim>\<open>try\<close> block: a failing model call and a missing \<^verbatim>\<open>response\<close> (whose \<^verbatim>\<open>split\<close> is a
  TypeError) both throw.
\<close>

definition rewriteToQueries_try :: "collaborators \<Rightarrow> string \<Rightarrow> js_error + string list" where
  "rewriteToQueries_try env userContent =
     (case ai_run_prompt env userContent of
        Inl e \<Rightarrow> Inl e
      | Inr None \<Rightarrow> Inl (Error ''Cannot read properties of undefined'')
      | Inr (Some response) \<Rightarrow>
          Inr (take 5 (filter (\<lambda>q. length q > 0) (map trim (split_on (CHR 0x0A) response)))))"

definition rewriteToQueries :: "collaborators \<Rightarrow> string \<Rightarrow> string list \<times> external_call list" where
  "rewriteToQueries env userContent =
     (case rewriteToQueries_try env userContent of
        Inl e \<Rightarrow> ([userContent], [AiRunPrompt userContent])
      | Inr qs \<Rightarrow> (qs, [AiRunPrompt userContent]))"

subsection \<open>Lexical search\<close>

text \<open>\<^verbatim>\<open>term.trim().replace(/[^\w\s]/g, '')\<close>.\<close>

definition sanitizedTerm :: "string \<Rightarrow> string" where
  "sanitizedTerm t = filter (\<lambda>c. word_char c \<or> js_whitespace c) (trim t)"

definition run_match :: "collaborators \<Rightarrow> string \<Rightarrow> js_error + DocumentChunkResult list" where
  "run_match env t =
     (case db_run_match env (sanitizedTerm t) of
        Inl e \<Rightarrow> Inl e
      | Inr results \<Rightarrow> Inr (case results of None \<Rightarrow> [] | Some rs \<Rightarrow> rs))"

definition searchDocumentChunks_try ::
  "collaborators \<Rightarrow> string list \<Rightarrow> js_error + DocumentChunkResult list" where
  "searchDocumentChunks_try env searchTerms =
     (case promise_all (map (run_match env) searchTerms) of
        Inl e \<Rightarrow> Inl e
      | Inr results \<Rightarrow>
          Inr (take 10 (sort_key (\<lambda>r. - nullish_zero (rank r)) (concat results))))"

definition searchDocumentChunks ::
  "collaborators \<Rightarrow> string list \<Rightarrow> DocumentChunkResult list \<times> external_call list" where
  "searchDocumentChunks env searchTerms =
     (case searchDocumentChunks_try env searchTerms of
        Inl e \<Rightarrow> ([], map (\<lambda>t. DbRunMatch (sanitizedTerm t)) searchTerms)
      | Inr rs \<Rightarrow> (rs, map (\<lambda>t. DbRunMatch (sanitizedTerm t)) searchTerms))"

text \<open>
  The function of the same name in the other copy of the module (src/unnamed/part_000):
  \<^verbatim>\<open>searchTerms.filter(Boolean)\<close> drops the empty terms before they are sanitized, and there is
  no \<^verbatim>\<open>try\<close>, so a failing query rejects the search.
\<close>

definition searchDocumentChunks_part_000 ::
  "collaborators \<Rightarrow> string list
     \<Rightarrow> (js_error + DocumentChunkResult list) \<times> external_call list" where
  "searchDocumentChunks_part_000 env searchTerms =
     (case promise_all (map (run_match env) (filter (\<lambda>t. t \<noteq> []) searchTerms)) of
        Inl e \<Rightarrow>
          (Inl e, map (\<lambda>t. DbRunMatch (sanitizedTerm t)) (filter (\<lambda>t. t \<noteq> []) searchTerms))
      | Inr results \<Rightarrow>
          (Inr (take 10 (sort_key (\<lambda>r. - nullish_zero (rank r)) (concat results))),
           map (\<lambda>t. DbRunMatch (sanitizedTerm t)) (filter (\<lambda>t. t \<noteq> []) searchTerms)))"

subsection \<open>Vector search\<close>

text \<open>
  The fan-out written inline in \<^verbatim>\<open>processUserQuery\<close>: for each query, the embedding and then
  the index query with \<^verbatim>\<open>data[0]\<close>. Nothing catches a failure here.
\<close>

definition first_vector :: "rat list list \<Rightarrow> rat list option" where
  "first_vector data = (case data of [] \<Rightarrow> None | v # vs \<Rightarrow> Some v)"

definition vector_search_one :: "collaborators \<Rightarrow> string \<Rightarrow> string \<Rightarrow> js_error + VectorizeMatches" where
  "vector_search_one env sid q =
     (case ai_generateEmbeddings env [q] of
        Inl e \<Rightarrow> Inl e
      | Inr data \<Rightarrow> vectorize_query env (first_vector data) sid)"

definition vector_calls_one :: "collaborators \<Rightarrow> string \<Rightarrow> string \<Rightarrow> external_call list" where
  "vector_calls_one env sid q =
     (case ai_generateEmbeddings env [q] of
        Inl e \<Rightarrow> [GenerateEmbeddings [q]]
      | Inr data \<Rightarrow> [GenerateEmbeddings [q], VectorizeQuery (first_vector data) sid])"

definition vector_search ::
  "collaborators \<Rightarrow> string \<Rightarrow> string list
     \<Rightarrow> (js_error + VectorizeMatches list) \<times> external_call list" where
  "vector_search env sid qs =
     (promise_all (map (vector_search_one env sid) qs),
      concat (map (vector_calls_one env sid) qs))"

subsection \<open>Context assembly\<close>

text \<open>
  The table object of database/schema.ts: \<^verbatim>\<open>documentChunks.p\<close> is the column declared under
  the property name \<open>p\<close>, and \<^verbatim>\<open>undefined\<close> for any other name.
\<close>

definition documentChunks :: "string \<Rightarrow> string option" where
  "documentChunks p =
     map_of [(''id'', ''id''), (''documentId'', ''document_id''), (''text'', ''text''),
             (''sessionId'', ''session_id''), (''embeddingId'', ''embedding_id'')] p"

text \<open>
  The selection of \<^verbatim>\<open>getRelevantDocuments\<close>: \<^verbatim>\<open>id: documentChunks.id\<close>,
  \<^verbatim>\<open>text: documentChunks.text\<close>, \<^verbatim>\<open>documentId: documentChunks.document_id\<close> and
  \<^verbatim>\<open>sessionId: documentChunks.session_id\<close>.
\<close>

definition selected_fields :: "(string \<times> string option) list" where
  "selected_fields =
     [(''id'', documentChunks ''id''), (''text'', documentChunks ''text''),
      (''documentId'', documentChunks ''document_id''),
      (''sessionId'', documentChunks ''session_id'')]"

text \<open>
  \<^verbatim>\<open>useDrizzle().select(fields).from(documentChunks).where(inArray(documentChunks.id, ids))\<close>:
  the query builder walks the selection and throws a TypeError on an entry that is
  \<^verbatim>\<open>undefined\<close>; for a selection of declared columns the chunk table answers.
\<close>

definition select_chunks ::
  "collaborators \<Rightarrow> (string \<times> string option) list \<Rightarrow> string list
     \<Rightarrow> js_error + DocumentChunk list" where
  "select_chunks env selection ids =
     (if list_ex (\<lambda>f. snd f = None) selection
      then Inl (Error ''Cannot convert undefined or null to object'')
      else db_select_chunks env ids)"

definition getRelevantDocuments ::
  "collaborators \<Rightarrow> string list \<Rightarrow> DocumentChunk list \<times> external_call list" where
  "getRelevantDocuments env ids =
     (if ids = [] then ([], [])
      else (case select_chunks env selected_fields ids of
              Inl e \<Rightarrow> ([], [DbSelectChunks ids])
            | Inr rows \<Rightarrow> (rows, [DbSelectChunks ids])))"

text \<open>
  The function of the same name in the other copy of the module (src/unnamed/part_000): it
  selects \<^verbatim>\<open>id\<close> and \<^verbatim>\<open>text\<close> only, so each returned row is that pair, and it has no
  \<^verbatim>\<open>try\<close>.
\<close>

definition getRelevantDocuments_part_000 ::
  "collaborators \<Rightarrow> string list \<Rightarrow> js_error + (string option \<times> string) list" where
  "getRelevantDocuments_part_000 env ids =
     (if ids = [] then Inr []
      else (case select_chunks env
                   [(''id'', documentChunks ''id''), (''text'', documentChunks ''text'')] ids of
              Inl e \<Rightarrow> Inl e
            | Inr rows \<Rightarrow> Inr (map (\<lambda>d. (chunk_id d, chunk_text d)) rows)))"

definition formatContext :: "DocumentChunk list \<Rightarrow> string" where
  "formatContext docs =
     join [CHR 0x0A, CHR 0x0A]
       (map (\<lambda>p. ''['' @ number_to_string (fst p + 1) @ '']: '' @ chunk_text (snd p))
          (enumerate 0 docs))"

subsection \<open>Orchestration\<close>

definition systemMessage :: RoleScopedChatInput where
  "systemMessage = \<lparr>role = System, content = Some SYSTEM_MESSAGE\<rparr>"

definition context_message :: "DocumentChunk list \<Rightarrow> RoleScopedChatInput" where
  "context_message docs =
     \<lparr>role = Assistant,
      content = Some (''Context from documents:'' @ [CHR 0x0A] @ formatContext docs)\<rparr>"

text \<open>The search, fusion and assembly steps, after validation and query expansion.\<close>

definition retrieve ::
  "collaborators \<Rightarrow> string \<Rightarrow> RoleScopedChatInput list \<Rightarrow> string list \<Rightarrow> world
     \<Rightarrow> (js_error + QueryProcessingResult) \<times> world" where
  "retrieve env sid msgs qs w =
     (let (textResults, c2) = searchDocumentChunks env qs;
          (vr, c3) = vector_search env sid qs;
          w3 = made (c2 @ c3) w
      in case vr of
           Inl e \<Rightarrow> (Inl e, w3)
         | Inr vectorResults \<Rightarrow>
             let rankedResults = performReciprocalRankFusion textResults vectorResults;
                 topIds = map result_id (take 10 rankedResults);
                 (docs, c4) = getRelevantDocuments env topIds;
                 w4 = streamResponse (MessageFound ''Compiling context...'' (length docs))
                        (made c4 w3)
             in (Inr \<lparr>messages = msgs @ [context_message docs], relevantDocs = docs,
                       queries = qs\<rparr>, w4))"

text \<open>The \<^verbatim>\<open>try\<close> block of \<^verbatim>\<open>processUserQuery\<close>.\<close>

definition processUserQuery_try ::
  "collaborators \<Rightarrow> request \<Rightarrow> world \<Rightarrow> (js_error + QueryProcessingResult) \<times> world" where
  "processUserQuery_try env req w =
     (case sessionId req of
        None \<Rightarrow> (Inl (Error ''Session ID is required''), w)
      | Some sid \<Rightarrow>
          if sid = [] then (Inl (Error ''Session ID is required''), w)
          else (case request_messages req of
                  None \<Rightarrow> (Inl (Error ''No messages provided''), w)
                | Some msgs \<Rightarrow>
                    if msgs = [] then (Inl (Error ''No messages provided''), w)
                    else (case content (last msgs) of
                            None \<Rightarrow> (Inl (Error ''Last message has no content''), w)
                          | Some query \<Rightarrow>
                              if query = [] then (Inl (Error ''Last message has no content''), w)
                              else
                                let w1 = streamResponse (Message ''Analyzing query...'') w;
                                    (qs, c1) = rewriteToQueries env query;
                                    w2 = streamResponse
                                           (MessageQueries ''Searching documents...'' qs)
                                           (made c1 w1)
                                in retrieve env sid (systemMessage # msgs) qs w2)))"

text \<open>The \<^verbatim>\<open>catch\<close>: report the error on the stream and throw it again.\<close>

definition processUserQuery ::
  "collaborators \<Rightarrow> request \<Rightarrow> world \<Rightarrow> (js_error + QueryProcessingResult) \<times> world" where
  "processUserQuery env req w =
     (case processUserQuery_try env req w of
        (Inl e, w') \<Rightarrow>
          (Inl e, streamResponse (ErrorEvent (''Processing failed: '' @ error_message e)) w')
      | (Inr r, w') \<Rightarrow> (Inr r, w'))"

subsection \<open>The request handler\<close>

fun stream_chunks :: "string list \<Rightarrow> world \<Rightarrow> world" where
  "stream_chunks [] w = w"
| "stream_chunks (c # cs) w = stream_chunks cs (streamResponse (ChunkEvent c) w)"

definition handler_failed :: "js_error \<Rightarrow> world \<Rightarrow> world" where
  "handler_failed e w =
     close (streamResponse (ErrorEvent (''Failed to process query: '' @ error_message e)) w)"

definition eventHandler :: "collaborators \<Rightarrow> request \<Rightarrow> world \<Rightarrow> world" where
  "eventHandler env req w =
     (case processUserQuery env req w of
        (Inl e, w1) \<Rightarrow> handler_failed e w1
      | (Inr result, w1) \<Rightarrow>
          let w2 = made [AiRunStream (messages result)] w1
          in (case ai_run_stream env (messages result) of
                Inl e \<Rightarrow> handler_failed e w2
              | Inr (chunks, failure) \<Rightarrow>
                  let w3 = stream_chunks chunks w2
                  in (case failure of None \<Rightarrow> close w3 | Some e \<Rightarrow> handler_failed e w3)))"

section \<open>Reference orderings and example data\<close>

text \<open>
  The order that the design document asks of the context: the fetched chunks arranged by
  the caller's list of ids, an id that was not found leaving no gap.
\<close>

definition rank_ordered_chunks :: "DocumentChunk list \<Rightarrow> string list \<Rightarrow> DocumentChunk list" where
  "rank_ordered_chunks rows ids =
     concat (map (\<lambda>i. filter (\<lambda>d. chunk_id d = Some i) rows) ids)"

text \<open>
  A chunk table that answers \<^verbatim>\<open>WHERE id IN (...)\<close> by scanning its rows: the rows come back
  in table order, whatever the order of the ids.
\<close>

definition table_select :: "DocumentChunk list \<Rightarrow> string list \<Rightarrow> js_error + DocumentChunk list" where
  "table_select rows ids =
     Inr (filter (\<lambda>d. case chunk_id d of None \<Rightarrow> False | Some i \<Rightarrow> i \<in> set ids) rows)"

definition lexical_hit :: "string \<Rightarrow> DocumentChunkResult" where
  "lexical_hit i = \<lparr>chunk_id = Some i, chunk_text = [], documentId = [], chunk_sessionId = [],
     rank = None\<rparr>"

definition vector_match :: "string \<Rightarrow> VectorizeMatch" where
  "vector_match i = \<lparr>match_id = Some i, match_score = 0\<rparr>"

definition stored_chunk :: "string \<Rightarrow> string \<Rightarrow> DocumentChunk" where
  "stored_chunk i t = \<lparr>chunk_id = Some i, chunk_text = t, documentId = ''d1'',
     chunk_sessionId = ''s1''\<rparr>"

definition list_c :: VectorizeMatches where
  "list_c = \<lparr>matches = Some [vector_match ''constructor'']\<rparr>"

definition list_Yc :: VectorizeMatches where
  "list_Yc = \<lparr>matches = Some [vector_match ''Y'', vector_match ''constructor'']\<rparr>"

definition list_X :: VectorizeMatches where
  "list_X = \<lparr>matches = Some [vector_match ''X'']\<rparr>"

definition list_YX :: VectorizeMatches where
  "list_YX = \<lparr>matches = Some [vector_match ''Y'', vector_match ''X'']\<rparr>"

definition fresh :: world where
  "fresh = \<lparr>events = [], is_closed = False, calls = []\<rparr>"

definition question :: request where
  "question = \<lparr>sessionId = Some ''s1'',
     request_messages = Some [\<lparr>role = User, content = Some ''hello''\<rparr>]\<rparr>"

text \<open>
  Collaborators that all answer: the model proposes the query \<open>q1\<close>, the indexes find
  nothing, the table is empty and the answer is streamed in one chunk.
\<close>

definition all_answer :: collaborators where
  "all_answer =
     \<lparr>ai_run_prompt = (\<lambda>c. Inr (Some ''q1'')),
      db_run_match = (\<lambda>t. Inr (Some [])),
      ai_generateEmbeddings = (\<lambda>ts. Inr [[1]]),
      vectorize_query = (\<lambda>v s. Inr \<lparr>matches = Some []\<rparr>),
      db_select_chunks = (\<lambda>ids. Inr []),
      ai_run_stream = (\<lambda>ms. Inr ([''Hi''], None))\<rparr>"

text \<open>The full-text index finds chunk \<open>c1\<close>, and the chunk table throws.\<close>

definition lookup_throws :: collaborators where
  "lookup_throws = all_answer
     \<lparr>db_run_match := (\<lambda>t. Inr (Some [lexical_hit ''c1''])),
      db_select_chunks := (\<lambda>ids. Inl (Error ''D1 query failed''))\<rparr>"

text \<open>The model answers the rewriting prompt with an empty response.\<close>

definition blank_response :: collaborators where
  "blank_response = all_answer\<lparr>ai_run_prompt := (\<lambda>c. Inr (Some []))\<rparr>"



text \<open>The chunk table holds \<open>c1\<close> before \<open>c2\<close>.\<close>

definition two_chunks :: collaborators where
  "two_chunks = all_answer
     \<lparr>db_select_chunks :=
        table_select [stored_chunk ''c1'' ''alpha'', stored_chunk ''c2'' ''beta'']\<rparr>"

text \<open>The ids that \<^verbatim>\<open>processUserQuery\<close> hands to the chunk lookup.\<close>

definition fused_top_ids :: "collaborators \<Rightarrow> string list \<Rightarrow> VectorizeMatches list \<Rightarrow> string list" where
  "fused_top_ids env qs vrs =
     map result_id (take 10 (performReciprocalRankFusion (fst (searchDocumentChunks env qs)) vrs))"

text \<open>The full-text index rejects the empty \<^verbatim>\<open>MATCH\<close> expression and finds \<open>c1\<close> otherwise.\<close>

definition empty_match_throws :: collaborators where
  "empty_match_throws = all_answer
     \<lparr>db_run_match := (\<lambda>t. if t = [] then Inl (Error ''fts5: syntax error'')
                           else Inr (Some [lexical_hit ''c1'']))\<rparr>"

section \<open>Properties of rank fusion\<close>

subsection \<open>The accumulated scores\<close>

lemma or_zero_Some [simp]: "or_zero (Some v) = v"
  by (simp add: or_zero_def)

lemma or_zero_None [simp]: "or_zero None = 0"
  by (simp add: or_zero_def)

lemma js_add_zero_left [simp]: "js_add 0 b = b"
  by (simp add: js_add_def)

lemma assigned_None: "assigned k own c = None \<longleftrightarrow> own = None \<and> k = ''__proto__''"
  by (simp add: assigned_def split: option.splits score_value.splits)

lemma map_of_add_hit:
  "map_of (add_hit s i x) k =
     (if x = Some k \<and> k \<noteq> [] then
        assigned k (map_of s k) (js_div 1 (of_nat (RANKING_CONSTANT + i + 1)))
      else map_of s k)"
proof (cases x)
  case None
  then show ?thesis by (simp add: add_hit_def)
next
  case (Some j)
  show ?thesis
  proof (cases "j = []")
    case True
    then show ?thesis using Some by (auto simp: add_hit_def)
  next
    case False
    let ?c = "js_div 1 (of_nat (RANKING_CONSTANT + i + 1))"
    show ?thesis
    proof (cases "assigned j (map_of s j) ?c")
      case None
      then have "map_of s j = None"
        unfolding assigned_None by (rule conjunct1)
      then show ?thesis
        using Some False None by (auto simp: add_hit_def)
    next
      case (Some v)
      then show ?thesis
        using \<open>x = Some j\<close> False by (auto simp: add_hit_def update_conv')
    qed
  qed
qed

lemma map_of_foldl_add_hit:
  "k \<noteq> [] \<Longrightarrow>
   map_of (foldl (\<lambda>s p. add_hit s (fst p) (snd p)) s (enumerate n ids)) k =
     foldl (assigned k) (map_of s k) (rrf_terms k n ids)"
proof (induction ids arbitrary: s n)
  case Nil
  then show ?case by (simp add: rrf_terms_def)
next
  case (Cons x xs)
  show ?case
    using Cons.prems
    by (simp add: Cons.IH [OF Cons.prems] map_of_add_hit rrf_terms_def)
qed

lemma map_of_foldl_add_hit_empty:
  "map_of (foldl (\<lambda>s p. add_hit s (fst p) (snd p)) s (enumerate n ids)) [] = map_of s []"
  by (induction ids arbitrary: s n) (simp_all add: map_of_add_hit)

lemma map_of_add_hits:
  "k \<noteq> [] \<Longrightarrow> map_of (add_hits s ids) k = foldl (assigned k) (map_of s k) (rrf_terms k 0 ids)"
  unfolding add_hits_def by (rule map_of_foldl_add_hit)

lemma map_of_add_hits_empty: "map_of (add_hits s ids) [] = map_of s []"
  unfolding add_hits_def by (rule map_of_foldl_add_hit_empty)

lemma map_of_add_matches:
  "k \<noteq> [] \<Longrightarrow> map_of (add_matches s v) k = foldl (assigned k) (map_of s k) (match_terms k v)"
  by (simp add: add_matches_def match_terms_def map_of_add_hits split: option.splits)

lemma map_of_add_matches_empty: "map_of (add_matches s v) [] = map_of s []"
  by (simp add: add_matches_def map_of_add_hits_empty split: option.splits)

lemma map_of_foldl_add_matches:
  "k \<noteq> [] \<Longrightarrow>
   map_of (foldl add_matches s vs) k =
     foldl (assigned k) (map_of s k) (concat (map (match_terms k) vs))"
proof (induction vs arbitrary: s)
  case Nil
  then show ?case by simp
next
  case (Cons v vs)
  show ?case
    by (simp add: Cons.IH [OF Cons.prems] map_of_add_matches [OF Cons.prems])
qed

lemma map_of_foldl_add_matches_empty: "map_of (foldl add_matches s vs) [] = map_of s []"
  by (induction vs arbitrary: s) (simp_all add: map_of_add_matches_empty)

lemma map_of_fused_scores:
  "map_of (fused_scores ft vs) k = foldl (assigned k) None (contributions k ft vs)"
proof (cases "k = []")
  case True
  then show ?thesis
    by (simp add: fused_scores_def contributions_def map_of_foldl_add_matches_empty
        map_of_add_hits_empty)
next
  case False
  then show ?thesis
    by (simp add: fused_scores_def contributions_def map_of_foldl_add_matches
        map_of_add_hits)
qed

lemma foldl_assigned_Number:
  "foldl (assigned k) (Some (Number v)) ts = Some (Number (foldl js_add v ts))"
  by (induction ts arbitrary: v) (simp_all add: assigned_def)

lemma foldl_assigned_Text:
  "foldl (assigned k) (Some (Text ns)) ts = Some (Text (ns @ ts))"
  by (induction ts arbitrary: ns) (simp_all add: assigned_def)

lemma foldl_assigned_plain:
  "\<not> inherited_property k \<Longrightarrow>
   foldl (assigned k) None ts = (if ts = [] then None else Some (Number (js_sum ts)))"
  by (cases ts) (simp_all add: assigned_def inherited_property_def foldl_assigned_Number
      js_sum_def)

lemma foldl_assigned_proto: "foldl (assigned ''__proto__'') None ts = None"
  by (induction ts) (simp_all add: assigned_def)

lemma foldl_assigned_method:
  "k \<in> set inherited_methods \<Longrightarrow>
   foldl (assigned k) None ts = (if ts = [] then None else Some (Text ts))"
proof (cases ts)
  case Nil
  then show ?thesis by simp
next
  case (Cons t ts')
  assume "k \<in> set inherited_methods"
  moreover from this have "k \<noteq> ''__proto__''"
    by (auto simp: inherited_methods_def)
  ultimately show ?thesis
    using Cons by (simp add: assigned_def foldl_assigned_Text)
qed

lemma distinct_add_hit: "distinct (map fst s) \<Longrightarrow> distinct (map fst (add_hit s i x))"
  by (simp add: add_hit_def distinct_update split: option.splits)

lemma distinct_add_hits: "distinct (map fst s) \<Longrightarrow> distinct (map fst (add_hits s ids))"
proof -
  have "distinct (map fst s) \<Longrightarrow>
        distinct (map fst (foldl (\<lambda>s p. add_hit s (fst p) (snd p)) s ps))" for ps
    by (induction ps arbitrary: s) (simp_all add: distinct_add_hit)
  then show "distinct (map fst s) \<Longrightarrow> ?thesis"
    by (simp add: add_hits_def)
qed

lemma distinct_add_matches: "distinct (map fst s) \<Longrightarrow> distinct (map fst (add_matches s v))"
  by (simp add: add_matches_def distinct_add_hits split: option.splits)

lemma distinct_fused_scores: "distinct (map fst (fused_scores ft vs))"
proof -
  have "distinct (map fst s) \<Longrightarrow> distinct (map fst (foldl add_matches s vs))" for s
    by (induction vs arbitrary: s) (simp_all add: distinct_add_matches)
  then show ?thesis
    by (simp add: fused_scores_def distinct_add_hits)
qed

lemma mset_Object_entries: "mset (Object_entries s) = mset s"
  by (simp add: Object_entries_def)

lemma set_Object_entries: "set (Object_entries s) = set s"
  by (metis mset_Object_entries set_mset_mset)

lemma distinct_Object_entries:
  "distinct (map fst s) \<Longrightarrow> distinct (map fst (Object_entries s))"
  by (metis mset_Object_entries mset_map mset_eq_imp_distinct_iff)

lemma mset_insert_result: "mset (insert_result a bs) = add_mset a (mset bs)"
  by (induction bs) simp_all

lemma mset_array_sort: "mset (array_sort rs) = mset rs"
  unfolding array_sort_def by (induction rs) (simp_all add: mset_insert_result)

lemma set_array_sort: "set (array_sort rs) = set rs"
  by (metis mset_array_sort set_mset_mset)

lemma keeps_place_numbers:
  "is_number (score a) \<Longrightarrow> is_number (score b) \<Longrightarrow>
   keeps_place a b \<longleftrightarrow> - number_of (score a) \<le> - number_of (score b)"
  by (simp add: keeps_place_def is_number_def number_of_def split: score_value.splits)

lemma insert_result_numbers:
  "is_number (score a) \<Longrightarrow> list_all (\<lambda>r. is_number (score r)) bs \<Longrightarrow>
   insert_result a bs = insort_key (\<lambda>r. - number_of (score r)) a bs"
  by (induction bs) (simp_all add: keeps_place_numbers)

lemma array_sort_numbers:
  "list_all (\<lambda>r. is_number (score r)) rs \<Longrightarrow>
   array_sort rs = sort_key (\<lambda>r. - number_of (score r)) rs"
proof (induction rs)
  case Nil
  then show ?case by (simp add: array_sort_def)
next
  case (Cons a rs)
  then have n: "list_all (\<lambda>r. is_number (score r)) (array_sort rs)"
    by (simp add: list_all_iff set_array_sort)
  have "array_sort (a # rs) = insert_result a (array_sort rs)"
    by (simp add: array_sort_def)
  also have "\<dots> = insort_key (\<lambda>r. - number_of (score r)) a (array_sort rs)"
    using Cons.prems n by (simp add: insert_result_numbers)
  finally show ?case
    using Cons by simp
qed

lemma descending_array_sort:
  assumes "list_all (\<lambda>r. is_number (score r)) rs"
  shows "descending (array_sort rs)"
proof -
  have "sorted (map (\<lambda>r. - number_of (score r)) (array_sort rs))"
    unfolding array_sort_numbers [OF assms] by (rule sorted_sort_key)
  then have "sorted_wrt (\<lambda>a b. number_of (score b) \<le> number_of (score a)) (array_sort rs)"
    by (simp add: sorted_map)
  then show ?thesis
    using assms by (simp add: descending_def list_all_iff set_array_sort)
qed

subsection \<open>The fused list\<close>

lemma mset_result_pairs_fusion:
  "mset (result_pairs (performReciprocalRankFusion ft vs)) = mset (fused_scores ft vs)"
  by (simp add: result_pairs_def performReciprocalRankFusion_def mset_Object_entries
      mset_array_sort multiset.map_comp comp_def)

lemma map_fst_result_pairs: "map fst (result_pairs rs) = map result_id rs"
  by (simp add: result_pairs_def comp_def)

lemma distinct_fusion_ids: "distinct (map result_id (performReciprocalRankFusion ft vs))"
proof -
  have "mset (map fst (result_pairs (performReciprocalRankFusion ft vs)))
        = mset (map fst (fused_scores ft vs))"
    using mset_result_pairs_fusion [of ft vs] by (metis mset_map)
  then have "distinct (map fst (result_pairs (performReciprocalRankFusion ft vs)))"
    using distinct_fused_scores [of ft vs] by (metis mset_eq_imp_distinct_iff)
  then show ?thesis by (simp add: map_fst_result_pairs)
qed

lemma map_of_fusion:
  "map_of (result_pairs (performReciprocalRankFusion ft vs)) = map_of (fused_scores ft vs)"
proof -
  have "set (result_pairs (performReciprocalRankFusion ft vs)) = set (fused_scores ft vs)"
    using mset_result_pairs_fusion [of ft vs] by (metis set_mset_mset)
  moreover have "distinct (map fst (result_pairs (performReciprocalRankFusion ft vs)))"
    using distinct_fusion_ids [of ft vs] by (simp add: map_fst_result_pairs)
  ultimately show ?thesis
    using distinct_fused_scores [of ft vs] by (simp add: map_of_inject_set)
qed

lemma filter_enumerate_none:
  "y \<notin> set xs \<Longrightarrow> filter (\<lambda>p. snd p = y) (enumerate n xs) = []"
  by (induction xs arbitrary: n) auto

lemma rrf_terms_absent: "Some k \<notin> set ids \<Longrightarrow> rrf_terms k n ids = []"
  by (simp add: rrf_terms_def filter_enumerate_none)

lemma plain_ids_absent:
  "list_all plain_id ids \<Longrightarrow> inherited_property k \<Longrightarrow> Some k \<notin> set ids"
  by (auto simp: list_all_iff plain_id_def)

lemma plain_no_contributions:
  assumes "plain_hits ft vs" and "inherited_property k"
  shows "contributions k ft vs = []"
proof -
  have "list_all plain_id (map chunk_id ft)"
    using assms(1) by (simp add: plain_hits_def list_all_iff)
  then have a: "rrf_terms k 0 (map chunk_id ft) = []"
    using assms(2) by (intro rrf_terms_absent plain_ids_absent)
  have "match_terms k v = []" if "v \<in> set vs" for v
  proof (cases "matches v")
    case None
    then show ?thesis by (simp add: match_terms_def)
  next
    case (Some ms)
    have "plain_matches v"
      using assms(1) that by (simp add: plain_hits_def list_all_iff)
    then have "list_all plain_id (map match_id ms)"
      using Some by (simp add: plain_matches_def list_all_iff)
    then have "rrf_terms k 0 (map match_id ms) = []"
      using assms(2) by (intro rrf_terms_absent plain_ids_absent)
    then show ?thesis
      using Some by (simp add: match_terms_def)
  qed
  then have "concat (map (match_terms k) vs) = []"
    by simp
  then show ?thesis
    using a by (simp add: contributions_def)
qed

lemma map_of_fused_plain:
  assumes "plain_hits ft vs"
  shows "map_of (fused_scores ft vs) k =
    (if contributions k ft vs = [] then None else Some (Number (js_sum (contributions k ft vs))))"
proof (cases "inherited_property k")
  case True
  then show ?thesis
    by (simp add: map_of_fused_scores plain_no_contributions [OF assms])
next
  case False
  then show ?thesis
    by (simp add: map_of_fused_scores foldl_assigned_plain)
qed

lemma fused_plain_numbers:
  assumes "plain_hits ft vs" and "p \<in> set (fused_scores ft vs)"
  shows "is_number (snd p)"
proof -
  have "map_of (fused_scores ft vs) (fst p) = Some (snd p)"
    using assms(2) distinct_fused_scores [of ft vs] by simp
  then have "snd p = Number (js_sum (contributions (fst p) ft vs))"
    unfolding map_of_fused_plain [OF assms(1)] by (simp split: if_splits)
  then show ?thesis
    by (simp add: is_number_def)
qed

lemma fusion_descending:
  assumes "plain_hits ft vs"
  shows "descending (performReciprocalRankFusion ft vs)"
  unfolding performReciprocalRankFusion_def
  by (rule descending_array_sort)
    (auto simp: list_all_iff set_Object_entries fused_plain_numbers [OF assms])

lemma js_div_1_61: "js_div 1 61 = 4725088133634619 / 288230376151711744"
  by code_simp

lemma js_div_1_62: "js_div 1 62 = 1162219258676257 / 72057594037927936"
  by code_simp

lemma js_div_1_63: "js_div 1 63 = 285942833483841 / 18014398509481984"
  by code_simp

lemma js_add_62_61:
  "js_add (1162219258676257 / 72057594037927936) (4725088133634619 / 288230376151711744)
   = 146468205755307 / 4503599627370496"
  by code_simp

lemma not_inherited_letters:
  "\<not> inherited_property ''A''" "\<not> inherited_property ''B''" "\<not> inherited_property ''C''"
  "\<not> inherited_property ''D''" "\<not> inherited_property ''X''" "\<not> inherited_property ''Y''"
  by (simp_all add: inherited_property_def inherited_methods_def)

lemma not_array_index_letters:
  "\<not> is_array_index ''A''" "\<not> is_array_index ''B''" "\<not> is_array_index ''C''"
  "\<not> is_array_index ''D''"
  by (simp_all add: is_array_index_def digit_char_def)

lemma assigned_letters:
  "\<not> inherited_property k \<Longrightarrow> assigned k None c = Some (Number c)"
  "assigned k (Some (Number v)) c = Some (Number (js_add v c))"
  by (simp_all add: assigned_def inherited_property_def)

lemma fused_scores_example:
  "fused_scores
     [lexical_hit ''A'', lexical_hit ''B'', lexical_hit ''C'']
     [\<lparr>matches = Some [vector_match ''B'', vector_match ''D'']\<rparr>]
   = [(''A'', Number (js_div 1 61)), (''B'', Number (js_add (js_div 1 62) (js_div 1 61))),
      (''C'', Number (js_div 1 63)), (''D'', Number (js_div 1 62))]"
  by (simp add: fused_scores_def add_hits_def add_hit_def add_matches_def lexical_hit_def
      vector_match_def RANKING_CONSTANT_def assigned_letters not_inherited_letters)

lemma fusion_example:
  "performReciprocalRankFusion
     [lexical_hit ''A'', lexical_hit ''B'', lexical_hit ''C'']
     [\<lparr>matches = Some [vector_match ''B'', vector_match ''D'']\<rparr>]
   = [\<lparr>result_id = ''B'', score = Number (js_add (js_div 1 62) (js_div 1 61))\<rparr>,
      \<lparr>result_id = ''A'', score = Number (js_div 1 61)\<rparr>,
      \<lparr>result_id = ''D'', score = Number (js_div 1 62)\<rparr>,
      \<lparr>result_id = ''C'', score = Number (js_div 1 63)\<rparr>]"
  by (simp add: performReciprocalRankFusion_def fused_scores_example Object_entries_def
      not_array_index_letters array_sort_def keeps_place_def
      js_div_1_61 js_div_1_62 js_div_1_63 js_add_62_61)

lemma fused_proto: "fused_scores [lexical_hit ''__proto__''] [] = []"
  by (simp add: fused_scores_def add_hits_def add_hit_def lexical_hit_def assigned_def)

lemma fused_constructor:
  "fused_scores [lexical_hit ''constructor''] [] = [(''constructor'', Text [js_div 1 61])]"
  by (simp add: fused_scores_def add_hits_def add_hit_def lexical_hit_def assigned_def
      inherited_methods_def RANKING_CONSTANT_def)

subsection \<open>Positions and permutations\<close>






lemma js_add_commute: "js_add a b = js_add b a"
  by (simp add: js_add_def add.commute)

lemma mset_concat_map:
  "mset (concat (map f xs)) = sum_mset (image_mset (\<lambda>x. mset (f x)) (mset xs))"
  by (induction xs) simp_all

lemma mset_concat_map_cong:
  "mset vs' = mset vs \<Longrightarrow> mset (concat (map f vs')) = mset (concat (map f vs))"
  by (simp add: mset_concat_map)

lemma mset_contributions:
  "mset vs' = mset vs \<Longrightarrow> mset (contributions k ft vs') = mset (contributions k ft vs)"
  using mset_concat_map_cong [of vs' vs "match_terms k"] by (simp add: contributions_def)

lemma mset_pair_cases:
  "mset [c, d] = mset [a, b] \<Longrightarrow> (c = a \<and> d = b) \<or> (c = b \<and> d = a)"
  by (auto simp: add_eq_conv_ex)

lemma js_sum_short:
  assumes "mset ys = mset xs" and "length xs \<le> 2"
  shows "js_sum ys = js_sum xs"
proof (cases xs)
  case Nil
  then show ?thesis using assms(1) by simp
next
  case (Cons a xs1)
  note xs = Cons
  show ?thesis
  proof (cases xs1)
    case Nil
    then show ?thesis using assms(1) xs by simp
  next
    case (Cons b xs2)
    then have x: "xs = [a, b]"
      using xs assms(2) by simp
    have "length ys = 2"
      using mset_eq_length [OF assms(1)] x by simp
    then obtain c d where y: "ys = [c, d]"
      by (auto simp: numeral_2_eq_2 length_Suc_conv)
    have "(c = a \<and> d = b) \<or> (c = b \<and> d = a)"
      using assms(1) unfolding x y by (rule mset_pair_cases)
    then show ?thesis
      unfolding x y by (auto simp: js_sum_def js_add_commute)
  qed
qed

lemma foldl_assigned_None:
  "foldl (assigned k) None ts = None \<longleftrightarrow> ts = [] \<or> k = ''__proto__''"
proof (cases "k = ''__proto__''")
  case True
  then show ?thesis by (simp add: foldl_assigned_proto)
next
  case False
  show ?thesis
  proof (cases "k \<in> set inherited_methods")
    case True
    then show ?thesis using False by (simp add: foldl_assigned_method)
  next
    case False
    then have "\<not> inherited_property k"
      using \<open>k \<noteq> ''__proto__''\<close> by (simp add: inherited_property_def)
    then show ?thesis
      using \<open>k \<noteq> ''__proto__''\<close> by (simp add: foldl_assigned_plain)
  qed
qed

lemma fused_keys:
  "fst ` set (fused_scores ft vs) = {k. contributions k ft vs \<noteq> [] \<and> k \<noteq> ''__proto__''}"
proof -
  have "fst ` set (fused_scores ft vs) = dom (map_of (fused_scores ft vs))"
    by (simp add: dom_map_of_conv_image_fst)
  also have "\<dots> = {k. contributions k ft vs \<noteq> [] \<and> k \<noteq> ''__proto__''}"
    by (auto simp: dom_def map_of_fused_scores foldl_assigned_None)
  finally show ?thesis .
qed

lemma js_div_1_61_twice:
  "js_add (4725088133634619 / 288230376151711744) (4725088133634619 / 288230376151711744)
   = 4725088133634619 / 144115188075855872"
  by code_simp

lemma js_add_61_61_62:
  "js_add (4725088133634619 / 144115188075855872) (1162219258676257 / 72057594037927936)
   = 7049526650987133 / 144115188075855872"
  by code_simp

lemma js_add_61_62:
  "js_add (4725088133634619 / 288230376151711744) (1162219258676257 / 72057594037927936)
   = 146468205755307 / 4503599627370496"
  by code_simp

lemma js_add_61_62_61:
  "js_add (146468205755307 / 4503599627370496) (4725088133634619 / 288230376151711744)
   = 3524763325493567 / 72057594037927936"
  by code_simp

subsection \<open>Scores and order of the fused list\<close>

text \<open>
  Claim C1, as the code has it. For every lexical hit list and every list of vector match
  lists in which no id is the name of a property that a plain object inherits from
  \<^verbatim>\<open>Object.prototype\<close>, the fused list has one entry per chunk id that occurs (with a
  truthy id) in some source list; its score is the sum, taken in double precision in the
  order in which the lists are processed, of \<open>1 / (60 + i + 1)\<close> over the zero-based
  positions \<open>i\<close> at which the id occurs; and the entries are in descending order of score.
  For the lexical list \<open>[A, B, C]\<close> and the one vector list \<open>[B, D]\<close> the result is \<open>B\<close>
  with \<open>1/62 + 1/61\<close>, \<open>A\<close> with \<open>1/61\<close>, \<open>D\<close> with \<open>1/62\<close> and \<open>C\<close> with \<open>1/63\<close>, in this
  order.
\<close>

theorem rrf_scores_and_order:
  assumes "plain_hits ft vs"
  shows "(\<forall>k. map_of (result_pairs (performReciprocalRankFusion ft vs)) k =
      (if contributions k ft vs = [] then None
       else Some (Number (js_sum (contributions k ft vs)))))
   \<and> distinct (map result_id (performReciprocalRankFusion ft vs))
   \<and> descending (performReciprocalRankFusion ft vs)
   \<and> performReciprocalRankFusion
        [lexical_hit ''A'', lexical_hit ''B'', lexical_hit ''C'']
        [\<lparr>matches = Some [vector_match ''B'', vector_match ''D'']\<rparr>]
      = [\<lparr>result_id = ''B'', score = Number (js_add (js_div 1 62) (js_div 1 61))\<rparr>,
         \<lparr>result_id = ''A'', score = Number (js_div 1 61)\<rparr>,
         \<lparr>result_id = ''D'', score = Number (js_div 1 62)\<rparr>,
         \<lparr>result_id = ''C'', score = Number (js_div 1 63)\<rparr>]"
  by (simp add: map_of_fusion map_of_fused_plain [OF assms] distinct_fusion_ids
      fusion_descending [OF assms] fusion_example)

theorem rrf_scores_and_order_witness:
  "plain_hits [lexical_hit ''A'', lexical_hit ''A''] []
   \<and> map_of (result_pairs (performReciprocalRankFusion [lexical_hit ''A'', lexical_hit ''A''] []))
       ''A'' = Some (Number (js_add (js_div 1 61) (js_div 1 62)))
   \<and> map_of (result_pairs (performReciprocalRankFusion [lexical_hit ''A'', lexical_hit ''A''] []))
       ''B'' = None"
proof -
  have p: "plain_hits [lexical_hit ''A'', lexical_hit ''A''] []"
    by (simp add: plain_hits_def plain_id_def lexical_hit_def not_inherited_letters)
  have c: "contributions ''A'' [lexical_hit ''A'', lexical_hit ''A''] [] = [js_div 1 61, js_div 1 62]"
    by (simp add: contributions_def rrf_terms_def lexical_hit_def RANKING_CONSTANT_def)
  have d: "contributions ''B'' [lexical_hit ''A'', lexical_hit ''A''] [] = []"
    by (simp add: contributions_def rrf_terms_def lexical_hit_def RANKING_CONSTANT_def)
  show ?thesis
    using rrf_scores_and_order [OF p] p
    by (simp add: c d js_sum_def)
qed

text \<open>
  The claim as stated, for every input, fails at the ids that \<^verbatim>\<open>scores[id]\<close> finds on the
  prototype of the plain object. The lexical list with the one id \<^verbatim>\<open>__proto__\<close> has the
  contribution \<open>1/61\<close> for it, and the fused list is empty: the assignment to
  \<^verbatim>\<open>scores.__proto__\<close> stores nothing. The lexical list with the one id \<^verbatim>\<open>constructor\<close>
  gives one entry whose score is not a number but the text of the inherited function
  followed by the text of \<open>1/61\<close>.
\<close>

theorem rrf_scores_counterexample:
  "contributions ''__proto__'' [lexical_hit ''__proto__''] [] = [js_div 1 61]
   \<and> performReciprocalRankFusion [lexical_hit ''__proto__''] [] = []
   \<and> contributions ''constructor'' [lexical_hit ''constructor''] [] = [js_div 1 61]
   \<and> performReciprocalRankFusion [lexical_hit ''constructor''] []
       = [\<lparr>result_id = ''constructor'', score = Text [js_div 1 61]\<rparr>]"
proof -
  have a: "contributions ''__proto__'' [lexical_hit ''__proto__''] [] = [js_div 1 61]"
    by (simp add: contributions_def rrf_terms_def lexical_hit_def RANKING_CONSTANT_def)
  have b: "contributions ''constructor'' [lexical_hit ''constructor''] [] = [js_div 1 61]"
    by (simp add: contributions_def rrf_terms_def lexical_hit_def RANKING_CONSTANT_def)
  have c: "\<not> is_array_index ''constructor''"
    by (simp add: is_array_index_def digit_char_def)
  show ?thesis
    by (simp add: a b c performReciprocalRankFusion_def fused_proto fused_constructor
        Object_entries_def array_sort_def)
qed

subsection \<open>Hits without an identifier\<close>




subsection \<open>The order in which the source lists are supplied\<close>

text \<open>
  Claim C7, as the code has it. Supplying the same vector match lists in another order
  leaves the set of scored chunk ids unchanged and gives every id the same multiset of
  contributions \<open>1 / (60 + i + 1)\<close>; the fused score is identical for every id that is not
  the name of a property inherited from \<^verbatim>\<open>Object.prototype\<close> and receives at most two
  contributions. With three or more contributions the order of the additions matters,
  because each double-precision addition rounds; under an inherited name the score is a
  text to which the contributions are appended in the order of the lists.
\<close>

theorem fusion_order_of_lists:
  assumes "mset vs' = mset vs"
  shows "fst ` set (fused_scores ft vs') = fst ` set (fused_scores ft vs)
    \<and> (\<forall>k. mset (contributions k ft vs') = mset (contributions k ft vs))
    \<and> (\<forall>k. \<not> inherited_property k \<longrightarrow> length (contributions k ft vs) \<le> 2 \<longrightarrow>
          map_of (fused_scores ft vs') k = map_of (fused_scores ft vs) k)"
proof (intro conjI allI impI)
  have e: "contributions k ft vs' = [] \<longleftrightarrow> contributions k ft vs = []" for k
    using mset_contributions [OF assms, of k ft] by (metis mset_zero_iff)
  show "fst ` set (fused_scores ft vs') = fst ` set (fused_scores ft vs)"
    by (simp add: fused_keys e)
  show "mset (contributions k ft vs') = mset (contributions k ft vs)" for k
    using assms by (rule mset_contributions)
  show "map_of (fused_scores ft vs') k = map_of (fused_scores ft vs) k"
    if "\<not> inherited_property k" and "length (contributions k ft vs) \<le> 2" for k
    unfolding map_of_fused_scores foldl_assigned_plain [OF that(1)] e [of k]
      js_sum_short [OF mset_contributions [OF assms, of k ft] that(2)]
    by (rule refl)
qed

theorem fusion_order_of_lists_witness:
  "mset [list_YX, list_X] = mset [list_X, list_YX]
   \<and> \<not> inherited_property ''X''
   \<and> length (contributions ''X'' [] [list_X, list_YX]) \<le> 2
   \<and> map_of (fused_scores [] [list_YX, list_X]) ''X''
       = map_of (fused_scores [] [list_X, list_YX]) ''X''"
proof -
  have m: "mset [list_YX, list_X] = mset [list_X, list_YX]"
    by simp
  have l: "length (contributions ''X'' [] [list_X, list_YX]) \<le> 2"
    by (simp add: contributions_def match_terms_def rrf_terms_def list_X_def list_YX_def
        vector_match_def)
  show ?thesis
    using fusion_order_of_lists [OF m, of "[]"] l m not_inherited_letters(5) by blast
qed

text \<open>
  The claim as stated, that the score mapping is identical, fails: with the lexical list
  \<open>[X]\<close> and the vector lists \<open>[X]\<close> and \<open>[Y, X]\<close>, the score of \<open>X\<close> is
  \<open>(1/61 + 1/61) + 1/62 = 0.04891591750396616\<close> in one order and
  \<open>(1/61 + 1/62) + 1/61 = 0.048915917503966164\<close> in the other. And with the vector lists
  \<open>[constructor]\<close> and \<open>[Y, constructor]\<close>, the text stored for \<^verbatim>\<open>constructor\<close> ends in
  \<open>1/61\<close> then \<open>1/62\<close> in one order and in \<open>1/62\<close> then \<open>1/61\<close> in the other.
\<close>

theorem fusion_order_counterexample:
  "mset [list_YX, list_X] = mset [list_X, list_YX]
   \<and> map_of (fused_scores [lexical_hit ''X''] [list_X, list_YX]) ''X''
       = Some (Number (7049526650987133 / 144115188075855872))
   \<and> map_of (fused_scores [lexical_hit ''X''] [list_YX, list_X]) ''X''
       = Some (Number (3524763325493567 / 72057594037927936))
   \<and> map_of (fused_scores [lexical_hit ''X''] [list_X, list_YX]) ''X''
       \<noteq> map_of (fused_scores [lexical_hit ''X''] [list_YX, list_X]) ''X''
   \<and> mset [list_Yc, list_c] = mset [list_c, list_Yc]
   \<and> map_of (fused_scores [] [list_c, list_Yc]) ''constructor''
       = Some (Text [4725088133634619 / 288230376151711744,
                     1162219258676257 / 72057594037927936])
   \<and> map_of (fused_scores [] [list_Yc, list_c]) ''constructor''
       = Some (Text [1162219258676257 / 72057594037927936,
                     4725088133634619 / 288230376151711744])"
proof -
  have a: "contributions ''X'' [lexical_hit ''X''] [list_X, list_YX]
           = [js_div 1 61, js_div 1 61, js_div 1 62]"
    by (simp add: contributions_def match_terms_def rrf_terms_def lexical_hit_def
        vector_match_def list_X_def list_YX_def RANKING_CONSTANT_def)
  have b: "contributions ''X'' [lexical_hit ''X''] [list_YX, list_X]
           = [js_div 1 61, js_div 1 62, js_div 1 61]"
    by (simp add: contributions_def match_terms_def rrf_terms_def lexical_hit_def
        vector_match_def list_X_def list_YX_def RANKING_CONSTANT_def)
  have c: "contributions ''constructor'' [] [list_c, list_Yc] = [js_div 1 61, js_div 1 62]"
    by (simp add: contributions_def match_terms_def rrf_terms_def vector_match_def list_c_def
        list_Yc_def RANKING_CONSTANT_def)
  have d: "contributions ''constructor'' [] [list_Yc, list_c] = [js_div 1 62, js_div 1 61]"
    by (simp add: contributions_def match_terms_def rrf_terms_def vector_match_def list_c_def
        list_Yc_def RANKING_CONSTANT_def)
  have m: "''constructor'' \<in> set inherited_methods"
    by (simp add: inherited_methods_def)
  have x: "map_of (fused_scores [lexical_hit ''X''] [list_X, list_YX]) ''X''
       = Some (Number (7049526650987133 / 144115188075855872))"
    "map_of (fused_scores [lexical_hit ''X''] [list_YX, list_X]) ''X''
       = Some (Number (3524763325493567 / 72057594037927936))"
    by (simp_all add: map_of_fused_scores a b assigned_letters not_inherited_letters
        js_div_1_61 js_div_1_62 js_div_1_61_twice js_add_61_61_62 js_add_61_62
        js_add_61_62_61)
  have y: "map_of (fused_scores [] [list_c, list_Yc]) ''constructor''
       = Some (Text [4725088133634619 / 288230376151711744,
                     1162219258676257 / 72057594037927936])"
    "map_of (fused_scores [] [list_Yc, list_c]) ''constructor''
       = Some (Text [1162219258676257 / 72057594037927936,
                     4725088133634619 / 288230376151711744])"
    unfolding map_of_fused_scores c d foldl_assigned_method [OF m]
    by (simp_all add: js_div_1_61 js_div_1_62)
  show ?thesis
    unfolding x y by simp
qed

section \<open>Properties of the pipeline\<close>

subsection \<open>Steps of the request\<close>

lemma formatContext_Nil: "formatContext [] = []"
  by (simp add: formatContext_def)

lemma events_streamResponse: "events (streamResponse ev w) = events w @ [ev]"
  by (simp add: streamResponse_def)

lemma events_made: "events (made cs w) = events w"
  by (simp add: made_def)

lemma calls_streamResponse: "calls (streamResponse ev w) = calls w"
  by (simp add: streamResponse_def)

lemma calls_made: "calls (made cs w) = calls w @ cs"
  by (simp add: made_def)

lemma retrieve_ok:
  assumes "fst (vector_search env sid qs) = Inr vrs"
  shows "retrieve env sid msgs qs w =
    (let docs = fst (getRelevantDocuments env
                  (map result_id (take 10
                     (performReciprocalRankFusion (fst (searchDocumentChunks env qs)) vrs))))
     in (Inr \<lparr>messages = msgs @ [context_message docs], relevantDocs = docs, queries = qs\<rparr>,
         streamResponse (MessageFound ''Compiling context...'' (length docs))
           (made (snd (getRelevantDocuments env
                  (map result_id (take 10
                     (performReciprocalRankFusion (fst (searchDocumentChunks env qs)) vrs)))))
              (made (snd (searchDocumentChunks env qs) @ snd (vector_search env sid qs)) w))))"
  using assms by (simp add: retrieve_def Let_def split_beta)

lemma retrieve_failed:
  assumes "fst (vector_search env sid qs) = Inl e"
  shows "retrieve env sid msgs qs w =
    (Inl e, made (snd (searchDocumentChunks env qs) @ snd (vector_search env sid qs)) w)"
  using assms by (simp add: retrieve_def Let_def split_beta)

lemma processUserQuery_try_valid:
  assumes "sessionId req = Some sid" and "sid \<noteq> []"
    and "request_messages req = Some msgs" and "msgs \<noteq> []"
    and "content (last msgs) = Some q" and "q \<noteq> []"
  shows "processUserQuery_try env req w =
    retrieve env sid (systemMessage # msgs) (fst (rewriteToQueries env q))
      (streamResponse (MessageQueries ''Searching documents...'' (fst (rewriteToQueries env q)))
         (made (snd (rewriteToQueries env q))
            (streamResponse (Message ''Analyzing query...'') w)))"
  using assms by (simp add: processUserQuery_try_def Let_def split_beta)

lemma processUserQuery_try_invalid:
  assumes "sessionId req = None \<or> sessionId req = Some []
    \<or> request_messages req = None \<or> request_messages req = Some []"
  shows "processUserQuery_try env req w =
    (Inl (Error (if sessionId req = None \<or> sessionId req = Some []
                 then ''Session ID is required'' else ''No messages provided'')), w)"
  using assms by (auto simp: processUserQuery_try_def split: option.splits)

lemma processUserQuery_ok:
  assumes "sessionId req = Some sid" and "sid \<noteq> []"
    and "request_messages req = Some msgs" and "msgs \<noteq> []"
    and "content (last msgs) = Some q" and "q \<noteq> []"
    and "fst (vector_search env sid (fst (rewriteToQueries env q))) = Inr vrs"
  shows "\<exists>w'. processUserQuery env req w =
      (Inr \<lparr>messages = systemMessage # msgs
                @ [context_message (fst (getRelevantDocuments env
                     (fused_top_ids env (fst (rewriteToQueries env q)) vrs)))],
             relevantDocs = fst (getRelevantDocuments env
                     (fused_top_ids env (fst (rewriteToQueries env q)) vrs)),
             queries = fst (rewriteToQueries env q)\<rparr>, w')
    \<and> filter is_error (events w') = filter is_error (events w)
    \<and> is_closed w' = is_closed w"
  unfolding processUserQuery_def processUserQuery_try_valid [OF assms(1-6)]
    retrieve_ok [OF assms(7)] fused_top_ids_def
  by (simp add: Let_def events_streamResponse events_made is_error_def streamResponse_def
      made_def)

lemma processUserQuery_try_Inr:
  assumes "processUserQuery_try env req w = (Inr res, w')"
  shows "\<exists>msgs. request_messages req = Some msgs
    \<and> messages res = systemMessage # msgs @ [context_message (relevantDocs res)]"
proof -
  obtain sid msgs q where v: "sessionId req = Some sid" "sid \<noteq> []"
      "request_messages req = Some msgs" "msgs \<noteq> []"
      "content (last msgs) = Some q" "q \<noteq> []"
    using assms by (auto simp: processUserQuery_try_def split: option.splits if_splits)
  let ?qs = "fst (rewriteToQueries env q)"
  show ?thesis
  proof (cases "fst (vector_search env sid ?qs)")
    case (Inl e)
    then show ?thesis
      using assms unfolding processUserQuery_try_valid [OF v] retrieve_failed [OF Inl]
      by simp
  next
    case (Inr vrs)
    then show ?thesis
      using assms v(3) unfolding processUserQuery_try_valid [OF v] retrieve_ok [OF Inr]
      by (auto simp: Let_def)
  qed
qed

lemma processUserQuery_Inr:
  "processUserQuery env req w = (Inr res, w') \<Longrightarrow> processUserQuery_try env req w = (Inr res, w')"
  by (auto simp: processUserQuery_def split: prod.splits sum.splits)

lemma calls_stream_chunks: "calls (stream_chunks cs w) = calls w"
  by (induction cs arbitrary: w) (simp_all add: calls_streamResponse)

lemma calls_handler_failed: "calls (handler_failed e w) = calls w"
  by (simp add: handler_failed_def close_def streamResponse_def)

lemma closed_handler_failed: "is_closed (handler_failed e w)"
  by (simp add: handler_failed_def close_def)

lemma closed_eventHandler: "is_closed (eventHandler env req w)"
  by (simp add: eventHandler_def closed_handler_failed close_def Let_def
      split: prod.splits sum.splits option.splits)

lemma eventHandler_generates:
  "processUserQuery env req w = (Inr r, v) \<Longrightarrow>
   AiRunStream (messages r) \<in> set (calls (eventHandler env req w))"
  by (simp add: eventHandler_def Let_def calls_handler_failed calls_stream_chunks calls_made
      close_def split: prod.splits sum.splits option.splits)

lemma undeclared_columns:
  "documentChunks ''document_id'' = None" "documentChunks ''session_id'' = None"
  by (simp_all add: documentChunks_def)

lemma select_chunks_throws:
  "select_chunks env selected_fields ids
     = Inl (Error ''Cannot convert undefined or null to object'')"
  by (simp add: select_chunks_def selected_fields_def undeclared_columns)

lemma getRelevantDocuments_throws: "fst (getRelevantDocuments env ids) = []"
  by (simp add: getRelevantDocuments_def select_chunks_throws)




lemma search_single:
  "fst (searchDocumentChunks env [t]) =
     (case db_run_match env (sanitizedTerm t) of
        Inl e \<Rightarrow> []
      | Inr None \<Rightarrow> []
      | Inr (Some rs) \<Rightarrow> take 10 (sort_key (\<lambda>r. - nullish_zero (rank r)) rs))"
  by (simp add: searchDocumentChunks_def searchDocumentChunks_try_def run_match_def
      split: sum.splits option.splits)

lemma sanitizedTerm_chars: "c \<in> set (sanitizedTerm t) \<Longrightarrow> word_char c \<or> js_whitespace c"
  by (simp add: sanitizedTerm_def)

lemma rewriteToQueries_fallback:
  "isl (ai_run_prompt env c) \<or> ai_run_prompt env c = Inr None \<Longrightarrow>
   fst (rewriteToQueries env c) = [c]"
  by (auto simp: rewriteToQueries_def rewriteToQueries_try_def isl_def)

lemma rewriteToQueries_lines:
  assumes "ai_run_prompt env c = Inr (Some r)"
    and "l \<in> set (split_on (CHR 0x0A) r)" and "trim l \<noteq> []"
  shows "1 \<le> length (fst (rewriteToQueries env c))
    \<and> length (fst (rewriteToQueries env c)) \<le> 5
    \<and> (\<forall>q\<in>set (fst (rewriteToQueries env c)). q \<noteq> [])"
proof -
  let ?ls = "filter (\<lambda>q. length q > 0) (map trim (split_on (CHR 0x0A) r))"
  have "trim l \<in> set ?ls"
    using assms(2,3) by simp
  then have "?ls \<noteq> []"
    by (metis empty_iff empty_set)
  then have "1 \<le> length (take 5 ?ls)"
    by (cases ?ls) simp_all
  moreover have "fst (rewriteToQueries env c) = take 5 ?ls"
    using assms(1) by (simp add: rewriteToQueries_def rewriteToQueries_try_def)
  ultimately show ?thesis
    by (auto dest: in_set_takeD)
qed

subsection \<open>Runs of the example collaborators\<close>

lemma number_to_string_1: "number_to_string (Suc 0) = ''1''"
  by code_simp

lemma number_to_string_2: "number_to_string (Suc (Suc 0)) = ''2''"
  by code_simp

lemmas number_to_string_digits = number_to_string_1 number_to_string_2

lemma trim_q1: "trim ''q1'' = ''q1''" "trim ''q2'' = ''q2''"
  by (simp_all add: trim_def js_whitespace_def)

lemma sanitized_q1: "sanitizedTerm ''q1'' = ''q1''" "sanitizedTerm ''q2'' = ''q2''"
  by (simp_all add: sanitizedTerm_def trim_q1 word_char_def)

lemma sanitized_punctuation: "sanitizedTerm ''?!'' = []"
  by (simp add: sanitizedTerm_def trim_def js_whitespace_def word_char_def)

lemma not_array_index_c1: "\<not> is_array_index ''c1''" "\<not> is_array_index ''c2''"
  by (simp_all add: is_array_index_def digit_char_def)

lemma not_inherited_c1: "\<not> inherited_property ''c1''"
  by (simp add: inherited_property_def inherited_methods_def)

lemma fusion_nothing: "performReciprocalRankFusion [] [\<lparr>matches = Some []\<rparr>] = []"
  by (simp add: performReciprocalRankFusion_def fused_scores_def add_hits_def add_matches_def
      Object_entries_def array_sort_def)

lemma fusion_c1:
  "performReciprocalRankFusion [lexical_hit ''c1''] [\<lparr>matches = Some []\<rparr>]
     = [\<lparr>result_id = ''c1'', score = Number (js_div 1 61)\<rparr>]"
  by (simp add: performReciprocalRankFusion_def fused_scores_def add_hits_def add_hit_def
      add_matches_def Object_entries_def lexical_hit_def not_array_index_c1
      RANKING_CONSTANT_def assigned_letters not_inherited_c1 array_sort_def)

lemma all_answer_queries: "rewriteToQueries all_answer q = ([''q1''], [AiRunPrompt q])"
  by (simp add: rewriteToQueries_def rewriteToQueries_try_def all_answer_def trim_q1)

lemma all_answer_search:
  "searchDocumentChunks all_answer [''q1''] = ([], [DbRunMatch ''q1''])"
  by (simp add: searchDocumentChunks_def searchDocumentChunks_try_def run_match_def
      all_answer_def sanitized_q1)

lemma all_answer_vectors:
  "vector_search all_answer sid [''q1''] =
     (Inr [\<lparr>matches = Some []\<rparr>], [GenerateEmbeddings [''q1''], VectorizeQuery (Some [1]) sid])"
  by (simp add: vector_search_def vector_search_one_def vector_calls_one_def first_vector_def
      all_answer_def)

lemma all_answer_top_ids: "fused_top_ids all_answer [''q1''] [\<lparr>matches = Some []\<rparr>] = []"
  by (simp add: fused_top_ids_def all_answer_search fusion_nothing)

lemma all_answer_run:
  "processUserQuery all_answer question fresh =
     (Inr \<lparr>messages = [systemMessage, \<lparr>role = User, content = Some ''hello''\<rparr>,
                context_message []],
            relevantDocs = [], queries = [''q1'']\<rparr>,
      \<lparr>events = [Message ''Analyzing query...'',
                 MessageQueries ''Searching documents...'' [''q1''],
                 MessageFound ''Compiling context...'' 0],
       is_closed = False,
       calls = [AiRunPrompt ''hello'', DbRunMatch ''q1'', GenerateEmbeddings [''q1''],
                VectorizeQuery (Some [1]) ''s1'']\<rparr>)"
  by (simp add: processUserQuery_def processUserQuery_try_def question_def fresh_def
      all_answer_queries retrieve_def all_answer_search all_answer_vectors fusion_nothing
      getRelevantDocuments_def streamResponse_def made_def)

lemma two_chunks_select:
  "db_select_chunks two_chunks [''c2'', ''c1'']
     = Inr [stored_chunk ''c1'' ''alpha'', stored_chunk ''c2'' ''beta'']"
  by (simp add: two_chunks_def all_answer_def table_select_def stored_chunk_def)

lemma two_chunks_part_000:
  "getRelevantDocuments_part_000 two_chunks [''c2'', ''c1'']
     = Inr [(Some ''c1'', ''alpha''), (Some ''c2'', ''beta'')]"
  by (simp add: getRelevantDocuments_part_000_def select_chunks_def documentChunks_def
      two_chunks_select stored_chunk_def)

lemma format_beta_alpha:
  "formatContext [stored_chunk ''c2'' ''beta'', stored_chunk ''c1'' ''alpha'']
     = ''[1]: beta'' @ [CHR 0x0A, CHR 0x0A] @ ''[2]: alpha''"
  by (simp add: formatContext_def stored_chunk_def number_to_string_digits)

lemma rank_order_two:
  "rank_ordered_chunks [stored_chunk ''c1'' ''alpha'', stored_chunk ''c2'' ''beta'']
     [''c2'', ''c1''] = [stored_chunk ''c2'' ''beta'', stored_chunk ''c1'' ''alpha'']"
  by (simp add: rank_ordered_chunks_def stored_chunk_def)

lemma lookup_throws_queries: "rewriteToQueries lookup_throws q = ([''q1''], [AiRunPrompt q])"
  by (simp add: rewriteToQueries_def rewriteToQueries_try_def lookup_throws_def all_answer_def
      trim_q1)

lemma lookup_throws_search:
  "searchDocumentChunks lookup_throws [''q1''] = ([lexical_hit ''c1''], [DbRunMatch ''q1''])"
  by (simp add: searchDocumentChunks_def searchDocumentChunks_try_def run_match_def
      lookup_throws_def all_answer_def sanitized_q1)

lemma lookup_throws_vectors:
  "vector_search lookup_throws sid [''q1''] =
     (Inr [\<lparr>matches = Some []\<rparr>], [GenerateEmbeddings [''q1''], VectorizeQuery (Some [1]) sid])"
  by (simp add: vector_search_def vector_search_one_def vector_calls_one_def first_vector_def
      lookup_throws_def all_answer_def)

lemma lookup_throws_fetch:
  "getRelevantDocuments lookup_throws [''c1''] = ([], [DbSelectChunks [''c1'']])"
  by (simp add: getRelevantDocuments_def select_chunks_throws)

lemma lookup_throws_run:
  "processUserQuery lookup_throws question fresh =
     (Inr \<lparr>messages = [systemMessage, \<lparr>role = User, content = Some ''hello''\<rparr>,
                context_message []],
            relevantDocs = [], queries = [''q1'']\<rparr>,
      \<lparr>events = [Message ''Analyzing query...'',
                 MessageQueries ''Searching documents...'' [''q1''],
                 MessageFound ''Compiling context...'' 0],
       is_closed = False,
       calls = [AiRunPrompt ''hello'', DbRunMatch ''q1'', GenerateEmbeddings [''q1''],
                VectorizeQuery (Some [1]) ''s1'', DbSelectChunks [''c1'']]\<rparr>)"
  by (simp add: processUserQuery_def processUserQuery_try_def question_def fresh_def
      lookup_throws_queries retrieve_def lookup_throws_search lookup_throws_vectors fusion_c1
      lookup_throws_fetch streamResponse_def made_def)

lemma lookup_throws_select:
  "db_select_chunks lookup_throws ids = Inl (Error ''D1 query failed'')"
  by (simp add: lookup_throws_def all_answer_def)

lemma lookup_throws_stream: "ai_run_stream lookup_throws ms = Inr ([''Hi''], None)"
  by (simp add: lookup_throws_def all_answer_def)

lemma lookup_throws_handler:
  "eventHandler lookup_throws question fresh =
     \<lparr>events = [Message ''Analyzing query...'',
                MessageQueries ''Searching documents...'' [''q1''],
                MessageFound ''Compiling context...'' 0,
                ChunkEvent ''Hi''],
      is_closed = True,
      calls = [AiRunPrompt ''hello'', DbRunMatch ''q1'', GenerateEmbeddings [''q1''],
               VectorizeQuery (Some [1]) ''s1'', DbSelectChunks [''c1''],
               AiRunStream [systemMessage, \<lparr>role = User, content = Some ''hello''\<rparr>,
                 context_message []]]\<rparr>"
  by (simp add: eventHandler_def lookup_throws_run lookup_throws_stream made_def
      streamResponse_def close_def)








subsection \<open>Order of the assembled context\<close>

text \<open>
  Claim C2 at the input where the code departs from it: the ids \<open>[c2, c1]\<close>, both stored
  in the chunk table. The selection of \<^verbatim>\<open>getRelevantDocuments\<close> in query.ts names
  \<^verbatim>\<open>documentChunks.document_id\<close> and \<^verbatim>\<open>documentChunks.session_id\<close>, which the table object
  does not have (it declares \<^verbatim>\<open>documentId\<close> and \<^verbatim>\<open>sessionId\<close>), so the select throws, the
  \<^verbatim>\<open>catch\<close> returns no chunk and the formatted context is empty, where the claim asks for
  \<open>[1]: beta\<close>, \<open>[2]: alpha\<close>. The copy in src/unnamed/part_000 selects \<^verbatim>\<open>id\<close> and
  \<^verbatim>\<open>text\<close> and returns both chunks, in the order of the table.
\<close>

theorem lookup_selects_undeclared_columns:
  "documentChunks ''document_id'' = None
   \<and> documentChunks ''session_id'' = None
   \<and> db_select_chunks two_chunks [''c2'', ''c1'']
       = Inr [stored_chunk ''c1'' ''alpha'', stored_chunk ''c2'' ''beta'']
   \<and> fst (getRelevantDocuments two_chunks [''c2'', ''c1'']) = []
   \<and> formatContext (fst (getRelevantDocuments two_chunks [''c2'', ''c1''])) = []
   \<and> formatContext (rank_ordered_chunks
          [stored_chunk ''c1'' ''alpha'', stored_chunk ''c2'' ''beta''] [''c2'', ''c1''])
       = ''[1]: beta'' @ [CHR 0x0A, CHR 0x0A] @ ''[2]: alpha''
   \<and> getRelevantDocuments_part_000 two_chunks [''c2'', ''c1'']
       = Inr [(Some ''c1'', ''alpha''), (Some ''c2'', ''beta'')]"
  by (simp add: undeclared_columns two_chunks_select getRelevantDocuments_throws
      formatContext_Nil rank_order_two format_beta_alpha two_chunks_part_000)

subsection \<open>A failing chunk lookup\<close>

text \<open>
  Claim C3, as the code has it. When the chunk lookup throws, \<^verbatim>\<open>getRelevantDocuments\<close>
  catches the failure and returns no documents. For a valid request whose vector searches
  succeed, \<^verbatim>\<open>processUserQuery\<close> then succeeds with zero relevant documents and an empty
  context block and emits no error event, the handler goes on to call the model for the
  answer, and the stream is closed at the end.
\<close>

theorem lookup_failure_is_swallowed:
  assumes "\<forall>ids. isl (db_select_chunks env ids)"
    and "sessionId req = Some sid" and "sid \<noteq> []"
    and "request_messages req = Some msgs" and "msgs \<noteq> []"
    and "content (last msgs) = Some q" and "q \<noteq> []"
    and "fst (vector_search env sid (fst (rewriteToQueries env q))) = Inr vrs"
  shows "(\<forall>ids. fst (getRelevantDocuments env ids) = [])
    \<and> (\<exists>r v. processUserQuery env req w = (Inr r, v)
          \<and> relevantDocs r = []
          \<and> messages r = systemMessage # msgs @ [context_message []]
          \<and> filter is_error (events v) = filter is_error (events w)
          \<and> AiRunStream (messages r) \<in> set (calls (eventHandler env req w)))
    \<and> is_closed (eventHandler env req w)"
proof (intro conjI allI)
  show g: "fst (getRelevantDocuments env ids) = []" for ids
    by (rule getRelevantDocuments_throws)
  obtain v where v: "processUserQuery env req w =
      (Inr \<lparr>messages = systemMessage # msgs @ [context_message []], relevantDocs = [],
             queries = fst (rewriteToQueries env q)\<rparr>, v)"
    "filter is_error (events v) = filter is_error (events w)"
    using processUserQuery_ok [OF assms(2-8), of w] unfolding g by auto
  show "\<exists>r v. processUserQuery env req w = (Inr r, v)
          \<and> relevantDocs r = []
          \<and> messages r = systemMessage # msgs @ [context_message []]
          \<and> filter is_error (events v) = filter is_error (events w)
          \<and> AiRunStream (messages r) \<in> set (calls (eventHandler env req w))"
    using v eventHandler_generates [OF v(1)] by auto
  show "is_closed (eventHandler env req w)"
    by (rule closed_eventHandler)
qed

theorem lookup_failure_is_swallowed_witness:
  "(\<forall>ids. isl (db_select_chunks lookup_throws ids))
   \<and> fst (vector_search lookup_throws ''s1'' (fst (rewriteToQueries lookup_throws ''hello'')))
       = Inr [\<lparr>matches = Some []\<rparr>]
   \<and> (\<forall>ids. fst (getRelevantDocuments lookup_throws ids) = [])
   \<and> (\<exists>r v. processUserQuery lookup_throws question fresh = (Inr r, v)
          \<and> relevantDocs r = []
          \<and> messages r = [systemMessage, \<lparr>role = User, content = Some ''hello''\<rparr>,
               context_message []]
          \<and> filter is_error (events v) = []
          \<and> AiRunStream (messages r) \<in> set (calls (eventHandler lookup_throws question fresh)))
   \<and> is_closed (eventHandler lookup_throws question fresh)"
proof -
  have a: "\<forall>ids. isl (db_select_chunks lookup_throws ids)"
    by (simp add: lookup_throws_select)
  have b: "fst (vector_search lookup_throws ''s1'' (fst (rewriteToQueries lookup_throws ''hello'')))
       = Inr [\<lparr>matches = Some []\<rparr>]"
    by (simp add: lookup_throws_queries lookup_throws_vectors)
  show ?thesis
    using lookup_failure_is_swallowed [OF a, of question "''s1''"
        "[\<lparr>role = User, content = Some ''hello''\<rparr>]" "''hello''" "[\<lparr>matches = Some []\<rparr>]" fresh]
      a b
    by (simp add: question_def fresh_def)
qed

text \<open>
  The claim as stated, that the stream then holds exactly one error event and no chunk
  event, fails: with a lookup that throws for the top-ranked id \<open>c1\<close>, the stream holds the
  three progress events and the chunk \<open>Hi\<close>, and no error event.
\<close>

theorem lookup_failure_counterexample:
  "db_select_chunks lookup_throws [''c1''] = Inl (Error ''D1 query failed'')
   \<and> DbSelectChunks [''c1''] \<in> set (calls (eventHandler lookup_throws question fresh))
   \<and> events (eventHandler lookup_throws question fresh)
       = [Message ''Analyzing query...'',
          MessageQueries ''Searching documents...'' [''q1''],
          MessageFound ''Compiling context...'' 0,
          ChunkEvent ''Hi'']
   \<and> filter is_error (events (eventHandler lookup_throws question fresh)) = []
   \<and> filter is_chunk (events (eventHandler lookup_throws question fresh)) = [ChunkEvent ''Hi'']
   \<and> is_closed (eventHandler lookup_throws question fresh)"
  by (simp add: lookup_throws_handler is_error_def is_chunk_def lookup_throws_select)

subsection \<open>Query expansion without usable lines\<close>

text \<open>
  Claim C4 at the input where the code departs from it: the model call succeeds and its
  response has no usable line. \<^verbatim>\<open>rewriteToQueries\<close> then returns the empty list, not the
  list holding the original query; the fallback to the original query is taken only when
  the call throws (\<open>rewriteToQueries_fallback\<close>), and a response with a usable line gives
  one to five non-empty queries (\<open>rewriteToQueries_lines\<close>).
\<close>

theorem rewriteToQueries_blank_response:
  "ai_run_prompt blank_response ''hello'' = Inr (Some [])
   \<and> fst (rewriteToQueries blank_response ''hello'') = []
   \<and> fst (rewriteToQueries blank_response ''hello'') \<noteq> [''hello'']"
  by (simp add: rewriteToQueries_def rewriteToQueries_try_def blank_response_def all_answer_def
      trim_def)

subsection \<open>A failing search source\<close>




subsection \<open>Validation\<close>

text \<open>
  Claim C6. For every request whose session id is missing or empty, or whose message list
  is missing or empty, \<^verbatim>\<open>processUserQuery\<close> throws an error, makes no external call, and
  adds exactly one event to the stream, the error event that carries the message.
\<close>

theorem validation_rejects_before_any_call:
  assumes "sessionId req = None \<or> sessionId req = Some []
    \<or> request_messages req = None \<or> request_messages req = Some []"
  shows "\<exists>m. m = (if sessionId req = None \<or> sessionId req = Some []
                 then ''Session ID is required'' else ''No messages provided'')
    \<and> fst (processUserQuery env req w) = Inl (Error m)
    \<and> calls (snd (processUserQuery env req w)) = calls w
    \<and> events (snd (processUserQuery env req w))
        = events w @ [ErrorEvent (''Processing failed: '' @ m)]"
  unfolding processUserQuery_def processUserQuery_try_invalid [OF assms]
  by (simp add: streamResponse_def error_message_def)

theorem validation_rejects_before_any_call_witness:
  "fst (processUserQuery all_answer (question\<lparr>sessionId := Some []\<rparr>) fresh)
     = Inl (Error ''Session ID is required'')
   \<and> calls (snd (processUserQuery all_answer (question\<lparr>sessionId := Some []\<rparr>) fresh)) = []
   \<and> events (snd (processUserQuery all_answer (question\<lparr>sessionId := Some []\<rparr>) fresh))
       = [ErrorEvent ''Processing failed: Session ID is required'']"
  using validation_rejects_before_any_call [of "question\<lparr>sessionId := Some []\<rparr>" all_answer fresh]
  by (simp add: question_def fresh_def)

subsection \<open>Sanitized search terms\<close>

text \<open>
  Claim C8 at the input where the code departs from it: the term \<open>?!\<close>, which is not empty
  and sanitizes to the empty string, against a full-text index that rejects the empty
  \<^verbatim>\<open>MATCH\<close> expression. The copy of \<^verbatim>\<open>searchDocumentChunks\<close> in src/unnamed/part_000 keeps the
  term (\<^verbatim>\<open>filter(Boolean)\<close> sees it before it is sanitized), sends the empty expression to the
  index and, having no \<^verbatim>\<open>try\<close>, fails with the error of the index. The copy in query.ts
  catches the same error and returns no hits. In both copies the sanitized term holds only
  word characters and white space (\<open>sanitizedTerm_chars\<close>).
\<close>

theorem empty_sanitized_term_rejects_in_part_000:
  "sanitizedTerm ''?!'' = []
   \<and> db_run_match empty_match_throws [] = Inl (Error ''fts5: syntax error'')
   \<and> searchDocumentChunks_part_000 empty_match_throws [''?!'']
       = (Inl (Error ''fts5: syntax error''), [DbRunMatch []])
   \<and> searchDocumentChunks empty_match_throws [''?!''] = ([], [DbRunMatch []])"
  by (simp add: searchDocumentChunks_part_000_def searchDocumentChunks_def
      searchDocumentChunks_try_def run_match_def sanitized_punctuation empty_match_throws_def
      all_answer_def)

subsection \<open>The returned conversation\<close>

text \<open>
  Claim C10. For every successful call of \<^verbatim>\<open>processUserQuery\<close>, the returned messages are
  the system message, then the caller's messages unchanged and in their order, then one
  assistant message with the context of the relevant documents. When no relevant document
  is retrieved, a valid request whose vector searches succeed still succeeds; the context
  block is then empty and no error event is emitted.
\<close>

theorem processUserQuery_messages:
  "(processUserQuery env req w = (Inr res, w') \<longrightarrow>
      (\<exists>msgs. request_messages req = Some msgs
         \<and> messages res = systemMessage # msgs @ [context_message (relevantDocs res)]))
   \<and> (sessionId req = Some sid \<and> sid \<noteq> [] \<and> request_messages req = Some msgs \<and> msgs \<noteq> []
        \<and> content (last msgs) = Some q \<and> q \<noteq> []
        \<and> fst (vector_search env sid (fst (rewriteToQueries env q))) = Inr vrs
        \<and> fst (getRelevantDocuments env (fused_top_ids env (fst (rewriteToQueries env q)) vrs)) = []
      \<longrightarrow> (\<exists>r v. processUserQuery env req w = (Inr r, v)
             \<and> relevantDocs r = []
             \<and> messages r = systemMessage # msgs
                 @ [\<lparr>role = Assistant, content = Some (''Context from documents:'' @ [CHR 0x0A])\<rparr>]
             \<and> filter is_error (events v) = filter is_error (events w)))"
proof (intro conjI impI)
  assume "processUserQuery env req w = (Inr res, w')"
  then show "\<exists>msgs. request_messages req = Some msgs
         \<and> messages res = systemMessage # msgs @ [context_message (relevantDocs res)]"
    by (intro processUserQuery_try_Inr processUserQuery_Inr)
next
  assume a: "sessionId req = Some sid \<and> sid \<noteq> [] \<and> request_messages req = Some msgs \<and> msgs \<noteq> []
        \<and> content (last msgs) = Some q \<and> q \<noteq> []
        \<and> fst (vector_search env sid (fst (rewriteToQueries env q))) = Inr vrs
        \<and> fst (getRelevantDocuments env (fused_top_ids env (fst (rewriteToQueries env q)) vrs)) = []"
  then have "sessionId req = Some sid" "sid \<noteq> []" "request_messages req = Some msgs"
    "msgs \<noteq> []" "content (last msgs) = Some q" "q \<noteq> []"
    "fst (vector_search env sid (fst (rewriteToQueries env q))) = Inr vrs"
    by simp_all
  from processUserQuery_ok [OF this, of w] a
  show "\<exists>r v. processUserQuery env req w = (Inr r, v)
             \<and> relevantDocs r = []
             \<and> messages r = systemMessage # msgs
                 @ [\<lparr>role = Assistant, content = Some (''Context from documents:'' @ [CHR 0x0A])\<rparr>]
             \<and> filter is_error (events v) = filter is_error (events w)"
    by (auto simp: context_message_def formatContext_Nil)
qed

theorem processUserQuery_messages_witness:
  "processUserQuery all_answer question fresh =
     (Inr \<lparr>messages = [systemMessage, \<lparr>role = User, content = Some ''hello''\<rparr>,
                context_message []],
            relevantDocs = [], queries = [''q1'']\<rparr>,
      \<lparr>events = [Message ''Analyzing query...'',
                 MessageQueries ''Searching documents...'' [''q1''],
                 MessageFound ''Compiling context...'' 0],
       is_closed = False,
       calls = [AiRunPrompt ''hello'', DbRunMatch ''q1'', GenerateEmbeddings [''q1''],
                VectorizeQuery (Some [1]) ''s1'']\<rparr>)
   \<and> request_messages question = Some [\<lparr>role = User, content = Some ''hello''\<rparr>]
   \<and> context_message []
       = \<lparr>role = Assistant, content = Some (''Context from documents:'' @ [CHR 0x0A])\<rparr>
   \<and> (\<exists>r v. processUserQuery all_answer question fresh = (Inr r, v)
          \<and> relevantDocs r = []
          \<and> messages r = [systemMessage, \<lparr>role = User, content = Some ''hello''\<rparr>,
               \<lparr>role = Assistant, content = Some (''Context from documents:'' @ [CHR 0x0A])\<rparr>]
          \<and> filter is_error (events v) = [])"
  using processUserQuery_messages [of all_answer question fresh
      "\<lparr>messages = [systemMessage, \<lparr>role = User, content = Some ''hello''\<rparr>,
                context_message []],
        relevantDocs = [], queries = [''q1'']\<rparr>"
      "\<lparr>events = [Message ''Analyzing query...'',
                 MessageQueries ''Searching documents...'' [''q1''],
                 MessageFound ''Compiling context...'' 0],
       is_closed = False,
       calls = [AiRunPrompt ''hello'', DbRunMatch ''q1'', GenerateEmbeddings [''q1''],
                VectorizeQuery (Some [1]) ''s1'']\<rparr>"
      "''s1''" "[\<lparr>role = User, content = Some ''hello''\<rparr>]" "''hello''"
      "[\<lparr>matches = Some []\<rparr>]"]
    all_answer_run
  by (simp add: question_def fresh_def all_answer_queries all_answer_vectors all_answer_top_ids
      getRelevantDocuments_def context_message_def formatContext_Nil)

end
